theory Spec2Isabelle
  imports Complex_Main
begin

section \<open>Tensors\<close>

text \<open>
  The agent's tensors are batched: every tensor that reaches the return, advantage and
  loss code has shape [batch, time] (\<open>value_preds[:, 1:]\<close> in \<open>compute_advantages\<close>
  needs two axes). A tensor is modelled with its two dimensions written out, so that the
  shapes [0, 3] and [0, 4], and a transposed tensor of shape [0, B], are all
  representable. Entries are float32 in the source and \<open>real\<close> here: overflow and
  infinities are outside the model, and rounding is written out where a statement
  depends on it (the returns and advantages with rounding). The one not-a-number the
  real-valued formulas can produce, the mean of a tensor without entries, is modelled
  (see \<open>reduce_mean\<close>).
\<close>

datatype tensor = Tensor (dim0: nat) (dim1: nat) (elems: "real list list")

definition well_formed :: "tensor \<Rightarrow> bool" where
  "well_formed t \<longleftrightarrow> length (elems t) = dim0 t \<and> (\<forall>r \<in> set (elems t). length r = dim1 t)"

definition shape :: "tensor \<Rightarrow> nat \<times> nat" where
  "shape t = (dim0 t, dim1 t)"

definition entry :: "tensor \<Rightarrow> nat \<Rightarrow> nat \<Rightarrow> real" where
  "entry t i j = elems t ! i ! j"

definition tabulate :: "nat \<Rightarrow> nat \<Rightarrow> (nat \<Rightarrow> nat \<Rightarrow> real) \<Rightarrow> tensor" where
  "tabulate m n g = Tensor m n (map (\<lambda>i. map (g i) [0..<n]) [0..<m])"

text \<open>\<open>tf.transpose\<close> of a rank-2 tensor swaps the two axes.\<close>

definition tf_transpose :: "tensor \<Rightarrow> tensor" where
  "tf_transpose t = tabulate (dim1 t) (dim0 t) (\<lambda>i j. entry t j i)"

text \<open>
  What the source can raise. \<open>ShapeMismatch\<close> is the failure of
  \<open>assert_is_compatible_with\<close> / \<open>tf.assert_equal\<close> on the two shapes (the
  specification's ValidationError); \<open>SliceOutOfBounds\<close> is \<open>x[0]\<close> on a tensor whose
  leading dimension is 0; \<open>IncompatibleShapes\<close> is an elementwise operation on shapes
  that do not broadcast; \<open>MultipleConditionsTrue\<close> is \<open>tf.case(..., exclusive=True)\<close>
  with more than one true predicate; \<open>NotATensor\<close> is \<open>tf.identity\<close> applied to the
  \<open>tf.no_op()\<close> operation. \<open>Unmodelled\<close> is not an error of the source: it marks the
  one place where the model stops short of TensorFlow (a scan over two tensors of
  different shapes, which TensorFlow may still broadcast slice by slice).
\<close>

datatype error =
  ShapeMismatch | SliceOutOfBounds | IncompatibleShapes | MultipleConditionsTrue | NotATensor
  | Unmodelled

text \<open>
  Elementwise operations. A unary operation (negation, \<open>tf.exp\<close>, \<open>tf.clip_by_value\<close>,
  multiplication by a Python scalar) keeps the shape. A binary operation broadcasts as
  TensorFlow does: along each axis the two sizes are equal or one of them is 1, and the
  operand of size 1 is repeated; other pairs of shapes raise.
\<close>

definition tmap :: "(real \<Rightarrow> real) \<Rightarrow> tensor \<Rightarrow> tensor" where
  "tmap f t = tabulate (dim0 t) (dim1 t) (\<lambda>i j. f (entry t i j))"

definition broadcast_dim :: "nat \<Rightarrow> nat \<Rightarrow> nat option" where
  "broadcast_dim m n =
     (if m = n then Some m else if m = 1 then Some n else if n = 1 then Some m else None)"

definition broadcast_entry :: "tensor \<Rightarrow> nat \<Rightarrow> nat \<Rightarrow> real" where
  "broadcast_entry t i j =
     entry t (if dim0 t = 1 then 0 else i) (if dim1 t = 1 then 0 else j)"

definition elementwise :: "(real \<Rightarrow> real \<Rightarrow> real) \<Rightarrow> tensor \<Rightarrow> tensor \<Rightarrow> error + tensor" where
  "elementwise f a b =
     (case (broadcast_dim (dim0 a) (dim0 b), broadcast_dim (dim1 a) (dim1 b)) of
        (Some m, Some n) \<Rightarrow>
          Inr (tabulate m n (\<lambda>i j. f (broadcast_entry a i j) (broadcast_entry b i j)))
      | _ \<Rightarrow> Inl IncompatibleShapes)"

text \<open>The slices \<open>x[:, 1:]\<close> and \<open>x[:, :-1]\<close>; on an empty time axis both are empty.\<close>

definition slice_from_1 :: "tensor \<Rightarrow> tensor" where
  "slice_from_1 t = tabulate (dim0 t) (dim1 t - 1) (\<lambda>i j. entry t i (Suc j))"

definition slice_to_last :: "tensor \<Rightarrow> tensor" where
  "slice_to_last t = tabulate (dim0 t) (dim1 t - 1) (\<lambda>i j. entry t i j)"

text \<open>
  \<open>tf.reduce_mean\<close> over all entries. The mean of a tensor without entries is 0/0,
  not-a-number in TensorFlow: \<open>None\<close> here. A scalar that may be not-a-number is a
  \<open>real option\<close>, and arithmetic on it keeps \<open>None\<close>.
\<close>

definition reduce_mean :: "tensor \<Rightarrow> real option" where
  "reduce_mean t =
     (if dim0 t * dim1 t = 0 then None
      else Some (sum_list (map sum_list (elems t)) / real (dim0 t * dim1 t)))"

text \<open>
  \<open>x[0]\<close>: the first slice along the leading axis, a vector. On a leading dimension of
  size 0 the strided slice fails (slice index 0 of dimension 0 out of bounds).
\<close>

definition first_slice :: "tensor \<Rightarrow> error + real list" where
  "first_slice t = (if dim0 t = 0 then Inl SliceOutOfBounds else Inr (elems t ! 0))"

definition zeros_like :: "real list \<Rightarrow> real list" where
  "zeros_like v = replicate (length v) 0"

text \<open>
  \<open>tf.scan(fn, elems, reverse=True, initializer=init)\<close>: the accumulator starts at
  \<open>init\<close>, the elements are visited from the last to the first, and position \<open>i\<close> of
  the result holds the accumulator after element \<open>i\<close>.
\<close>

fun tf_scan_reverse :: "('a \<Rightarrow> 'b \<Rightarrow> 'a) \<Rightarrow> 'b list \<Rightarrow> 'a \<Rightarrow> 'a list" where
  "tf_scan_reverse fn [] init = []"
| "tf_scan_reverse fn (x # xs) init =
     (let rest = tf_scan_reverse fn xs init
      in fn (case rest of [] \<Rightarrow> init | a # _ \<Rightarrow> a) x # rest)"

section \<open>The agent\<close>

text \<open>
  The hyperparameters and the one variable of \<open>PPOAgent\<close> that the modelled methods
  read. \<open>lambda_value\<close> is \<open>self._lambda\<close>. \<open>adaptive_kl_beta\<close> is the variable
  \<open>self._adaptive_kl_beta\<close>: \<open>None\<close> when the constructor was given an initial value
  that is not positive. The networks, the optimizer and the normalizers are collaborators
  outside this file and enter the methods below as arguments. \<open>check_numerics\<close> only
  raises on not-a-number and infinity and the summaries only log: both are left out.
\<close>

record ppo_agent =
  importance_ratio_clipping :: real
  lambda_value :: real
  discount_factor :: real
  entropy_regularization :: real
  value_pred_loss_coef :: real
  num_epochs :: int
  use_gae :: bool
  use_td_lambda_return :: bool
  reward_norm_clipping :: real
  log_prob_clipping :: real
  kl_cutoff_factor :: real
  kl_cutoff_coef :: real
  adaptive_kl_beta :: "real option"
  adaptive_kl_target :: real
  adaptive_kl_tolerance :: real

definition initial_adaptive_kl_beta :: "real \<Rightarrow> real option" where
  "initial_adaptive_kl_beta b = (if b > 0 then Some b else None)"

text \<open>The agent that \<open>__init__\<close> builds from its default arguments.\<close>

definition default_agent :: ppo_agent where
  "default_agent =
     \<lparr>importance_ratio_clipping = 0, lambda_value = 95 / 100, discount_factor = 99 / 100,
      entropy_regularization = 0, value_pred_loss_coef = 1 / 2, num_epochs = 25,
      use_gae = False, use_td_lambda_return = False, reward_norm_clipping = 10,
      log_prob_clipping = 0, kl_cutoff_factor = 2, kl_cutoff_coef = 1000,
      adaptive_kl_beta = initial_adaptive_kl_beta 1,
      adaptive_kl_target = 1 / 100, adaptive_kl_tolerance = 3 / 10\<rparr>"

section \<open>Monte Carlo returns\<close>

text \<open>
  \<open>discounted_accumulate_rewards\<close> works on one time slice: three vectors over the
  batch, combined entry by entry as \<open>next_step_return * discount + reward\<close>.
\<close>

definition discounted_accumulate_rewards ::
  "real list \<Rightarrow> real list \<times> real list \<Rightarrow> real list" where
  "discounted_accumulate_rewards next_step_return reward_and_discount =
     (case reward_and_discount of (reward, discount) \<Rightarrow>
        map2 (+) (map2 (*) next_step_return discount) reward)"

text \<open>
  \<open>compute_returns\<close>: the shape check guards the transposes (control dependency), the
  scan reads the transposed tensors, and its seed is \<open>tf.zeros_like(rewards[0])\<close> of the
  transposed rewards. \<open>norm_variance_epsilon\<close> is a parameter of the source function.
\<close>

definition compute_returns :: "tensor \<Rightarrow> tensor \<Rightarrow> real \<Rightarrow> error + tensor" where
  "compute_returns rewards discounts norm_variance_epsilon =
     (if shape rewards \<noteq> shape discounts then Inl ShapeMismatch
      else
        let rewards' = tf_transpose rewards;
            discounts' = tf_transpose discounts
        in case first_slice rewards' of
             Inl e \<Rightarrow> Inl e
           | Inr r0 \<Rightarrow>
               let returns = Tensor (dim0 rewards') (dim1 rewards')
                     (tf_scan_reverse discounted_accumulate_rewards
                        (zip (elems rewards') (elems discounts')) (zeros_like r0))
               in Inr (tf_transpose returns))"

section \<open>Advantages\<close>

text \<open>
  \<open>gae_step\<close> on one time slice: \<open>delta + discount * next_step_val * self._lambda\<close>,
  entry by entry over the batch.
\<close>

definition gae_step :: "ppo_agent \<Rightarrow> real list \<Rightarrow> real list \<times> real list \<Rightarrow> real list" where
  "gae_step self next_step_val delta_and_discount =
     (case delta_and_discount of (delta, discount) \<Rightarrow>
        map2 (+) delta (map (\<lambda>x. x * lambda_value self) (map2 (*) discount next_step_val)))"

text \<open>
  \<open>compute_advantages\<close>. The two slices of \<open>value_preds\<close> come first; without GAE the
  result is \<open>returns - value_preds\<close>; with GAE the deltas are
  \<open>rewards + discounts * next_value_preds - value_preds\<close> and the scan runs over the
  transposed deltas and discounts, seeded with \<open>tf.zeros_like(deltas[0])\<close>.
\<close>

definition compute_advantages ::
  "ppo_agent \<Rightarrow> tensor \<Rightarrow> tensor \<Rightarrow> tensor \<Rightarrow> tensor \<Rightarrow> error + tensor" where
  "compute_advantages self rewards returns discounts value_preds =
     (let next_value_preds = slice_from_1 value_preds;
          value_preds' = slice_to_last value_preds
      in if \<not> use_gae self then elementwise (-) returns value_preds'
         else
           case elementwise (*) discounts next_value_preds of
             Inl e \<Rightarrow> Inl e
           | Inr discounted_next \<Rightarrow>
           case elementwise (+) rewards discounted_next of
             Inl e \<Rightarrow> Inl e
           | Inr target \<Rightarrow>
           case elementwise (-) target value_preds' of
             Inl e \<Rightarrow> Inl e
           | Inr deltas \<Rightarrow>
               if shape deltas \<noteq> shape discounts then Inl Unmodelled
               else
                 let deltas' = tf_transpose deltas;
                     discounts' = tf_transpose discounts
                 in case first_slice deltas' of
                      Inl e \<Rightarrow> Inl e
                    | Inr d0 \<Rightarrow>
                        let advantages = Tensor (dim0 deltas') (dim1 deltas')
                              (tf_scan_reverse (gae_step self)
                                 (zip (elems deltas') (elems discounts')) (zeros_like d0))
                        in Inr (tf_transpose advantages))"

section \<open>Returns and advantages with rounding\<close>

text \<open>
  The two advantage computations are compared up to floating-point tolerance, so the
  returns and the advantages are embedded a second time with the rounding of float32
  written out. Every arithmetic operation of the source on float32 tensors returns its
  exact result rounded: \<open>rnd\<close> stands for that rounding and is applied wherever the
  source has an operator (\<open>+\<close>, \<open>-\<close>, \<open>*\<close>). Transposes, slices and the scan move
  entries and do not round. With the identity for \<open>rnd\<close> these are the functions of the
  two sections above.

  A rounding enters the statements through its error bound alone,
  \<open>\<bar>rnd x - x\<bar> \<le> u * \<bar>x\<bar> + eta\<close>: round-to-nearest in float32 meets it with
  u = 2^-24 and eta = 2^-150 on every result below the overflow threshold. An overflow
  leaves an infinity and is outside the embedding.
\<close>

definition discounted_accumulate_rewards_rounded ::
  "(real \<Rightarrow> real) \<Rightarrow> real list \<Rightarrow> real list \<times> real list \<Rightarrow> real list" where
  "discounted_accumulate_rewards_rounded rnd next_step_return reward_and_discount =
     (case reward_and_discount of (reward, discount) \<Rightarrow>
        map2 (\<lambda>x y. rnd (x + y)) (map2 (\<lambda>x y. rnd (x * y)) next_step_return discount) reward)"

definition compute_returns_rounded ::
  "(real \<Rightarrow> real) \<Rightarrow> tensor \<Rightarrow> tensor \<Rightarrow> real \<Rightarrow> error + tensor" where
  "compute_returns_rounded rnd rewards discounts norm_variance_epsilon =
     (if shape rewards \<noteq> shape discounts then Inl ShapeMismatch
      else
        let rewards' = tf_transpose rewards;
            discounts' = tf_transpose discounts
        in case first_slice rewards' of
             Inl e \<Rightarrow> Inl e
           | Inr r0 \<Rightarrow>
               let returns = Tensor (dim0 rewards') (dim1 rewards')
                     (tf_scan_reverse (discounted_accumulate_rewards_rounded rnd)
                        (zip (elems rewards') (elems discounts')) (zeros_like r0))
               in Inr (tf_transpose returns))"

definition gae_step_rounded ::
  "(real \<Rightarrow> real) \<Rightarrow> ppo_agent \<Rightarrow> real list \<Rightarrow> real list \<times> real list \<Rightarrow> real list" where
  "gae_step_rounded rnd self next_step_val delta_and_discount =
     (case delta_and_discount of (delta, discount) \<Rightarrow>
        map2 (\<lambda>x y. rnd (x + y)) delta
          (map (\<lambda>x. rnd (x * lambda_value self))
             (map2 (\<lambda>x y. rnd (x * y)) discount next_step_val)))"

definition compute_advantages_rounded ::
  "(real \<Rightarrow> real) \<Rightarrow> ppo_agent \<Rightarrow> tensor \<Rightarrow> tensor \<Rightarrow> tensor \<Rightarrow> tensor \<Rightarrow> error + tensor" where
  "compute_advantages_rounded rnd self rewards returns discounts value_preds =
     (let next_value_preds = slice_from_1 value_preds;
          value_preds' = slice_to_last value_preds
      in if \<not> use_gae self then elementwise (\<lambda>x y. rnd (x - y)) returns value_preds'
         else
           case elementwise (\<lambda>x y. rnd (x * y)) discounts next_value_preds of
             Inl e \<Rightarrow> Inl e
           | Inr discounted_next \<Rightarrow>
           case elementwise (\<lambda>x y. rnd (x + y)) rewards discounted_next of
             Inl e \<Rightarrow> Inl e
           | Inr target \<Rightarrow>
           case elementwise (\<lambda>x y. rnd (x - y)) target value_preds' of
             Inl e \<Rightarrow> Inl e
           | Inr deltas \<Rightarrow>
               if shape deltas \<noteq> shape discounts then Inl Unmodelled
               else
                 let deltas' = tf_transpose deltas;
                     discounts' = tf_transpose discounts
                 in case first_slice deltas' of
                      Inl e \<Rightarrow> Inl e
                    | Inr d0 \<Rightarrow>
                        let advantages = Tensor (dim0 deltas') (dim1 deltas')
                              (tf_scan_reverse (gae_step_rounded rnd self)
                                 (zip (elems deltas') (elems discounts')) (zeros_like d0))
                        in Inr (tf_transpose advantages))"

text \<open>
  The tolerance of the comparison. \<open>gae_rounded_magnitude\<close> adds up, for one entry of
  the batch, the magnitudes of the eight exact results that the two scans round at that
  timestep: two in \<open>discounted_accumulate_rewards\<close>, three in the deltas and three in
  \<open>gae_step\<close>. \<open>gae_tolerance\<close> bounds the rounding error that has accumulated at
  timestep \<open>t\<close>: every timestep \<open>k\<close> from \<open>t\<close> on contributes \<open>u\<close> times its
  magnitude plus 8 \<open>eta\<close>, scaled by the discounts between \<open>t\<close> and \<open>k\<close>, and the last
  summand is the rounding of the subtraction \<open>returns - value_preds\<close> of the empirical
  advantage. It is 0 when \<open>u\<close> and \<open>eta\<close> are 0.
\<close>

definition gae_rounded_magnitude ::
  "(real \<Rightarrow> real) \<Rightarrow> real \<Rightarrow> real \<Rightarrow> real \<Rightarrow> real \<Rightarrow> real \<Rightarrow> real \<Rightarrow> real \<Rightarrow> real" where
  "gae_rounded_magnitude rnd lam reward discount value_pred next_value_pred next_return
     next_advantage =
     (let x1 = next_return * discount;
          x2 = rnd x1 + reward;
          x3 = discount * next_value_pred;
          x4 = reward + rnd x3;
          x5 = rnd x4 - value_pred;
          x6 = discount * next_advantage;
          x7 = rnd x6 * lam;
          x8 = rnd x5 + rnd x7
      in \<bar>x1\<bar> + \<bar>x2\<bar> + \<bar>x3\<bar> + \<bar>x4\<bar> + \<bar>x5\<bar> + \<bar>x6\<bar> + \<bar>x7\<bar> + \<bar>x8\<bar>)"

definition gae_tolerance ::
  "real \<Rightarrow> real \<Rightarrow> (real \<Rightarrow> real) \<Rightarrow> ppo_agent \<Rightarrow> tensor \<Rightarrow> tensor \<Rightarrow> tensor \<Rightarrow> tensor \<Rightarrow>
   tensor \<Rightarrow> nat \<Rightarrow> nat \<Rightarrow> real" where
  "gae_tolerance u eta rnd self rewards discounts value_preds returns advantages b t =
     (let T = dim1 rewards;
          step = (\<lambda>k. u * gae_rounded_magnitude rnd (lambda_value self) (entry rewards b k)
                    (entry discounts b k) (entry value_preds b k) (entry value_preds b (Suc k))
                    (if Suc k < T then entry returns b (Suc k) else 0)
                    (if Suc k < T then entry advantages b (Suc k) else 0) + 8 * eta)
      in (\<Sum>k = t..<T. \<bar>prod (entry discounts b) {t..<k}\<bar> * step k) +
         (u * \<bar>entry returns b t - entry value_preds b t\<bar> + eta))"

text \<open>A rounding for the examples: to the nearest multiple of 1/4 (u = 0, eta = 1/8).\<close>

definition demo_rnd :: "real \<Rightarrow> real" where
  "demo_rnd x = of_int (round (4 * x)) / 4"

section \<open>Return and advantage together\<close>

text \<open>
  \<open>_normalize_advantages\<close> with \<open>axes=(0, 1)\<close>: \<open>tf.nn.moments\<close> is the mean and the
  mean squared deviation over all entries; on a tensor without entries there is nothing to
  normalize and the empty tensor comes back.
\<close>

definition moments :: "tensor \<Rightarrow> (real \<times> real) option" where
  "moments x =
     (case reduce_mean x of
        None \<Rightarrow> None
      | Some mean \<Rightarrow>
          (case reduce_mean (tmap (\<lambda>v. (v - mean) ^ 2) x) of
             None \<Rightarrow> None
           | Some variance \<Rightarrow> Some (mean, variance)))"

definition normalize_advantages :: "tensor \<Rightarrow> real \<Rightarrow> tensor" where
  "normalize_advantages advantages variance_epsilon =
     (case moments advantages of
        None \<Rightarrow> tmap (\<lambda>v. v) advantages
      | Some (adv_mean, adv_var) \<Rightarrow>
          tmap (\<lambda>v. (v - adv_mean) / (sqrt adv_var + variance_epsilon)) advantages)"

text \<open>
  \<open>compute_return_and_advantage\<close>. The discounts and rewards of \<open>next_time_steps\<close>
  come in as tensors, \<open>common_utils.get_episode_mask(next_time_steps)\<close> as
  \<open>episode_mask\<close>, and the reward normalizer (when the agent has one) as its
  \<open>normalize\<close> function of the rewards and the clip value (\<open>center_mean=False\<close>). The result
  carries the warning the call logs, if any.
\<close>

definition compute_return_and_advantage ::
  "ppo_agent \<Rightarrow> (tensor \<Rightarrow> real \<Rightarrow> tensor) option \<Rightarrow> tensor \<Rightarrow> tensor \<Rightarrow> tensor \<Rightarrow> tensor \<Rightarrow>
   error + (tensor \<times> tensor \<times> string list)" where
  "compute_return_and_advantage self reward_normalizer next_discount next_reward
     episode_mask value_preds =
     (let discounts = tmap (\<lambda>v. v * discount_factor self) next_discount;
          rewards = (case reward_normalizer of
                       None \<Rightarrow> next_reward
                     | Some normalizer \<Rightarrow> normalizer next_reward (reward_norm_clipping self))
      in case elementwise (*) discounts episode_mask of
           Inl e \<Rightarrow> Inl e
         | Inr discounts \<Rightarrow>
         case compute_returns rewards discounts 1000000 of
           Inl e \<Rightarrow> Inl e
         | Inr returns \<Rightarrow>
         case compute_advantages self rewards returns discounts value_preds of
           Inl e \<Rightarrow> Inl e
         | Inr advantages \<Rightarrow>
             let normalized_advantages = normalize_advantages advantages (1 / 10 ^ 8)
             in if use_td_lambda_return self then
                  if \<not> use_gae self then
                    Inr (returns, normalized_advantages,
                         [''use_td_lambda_return was True, but use_gae was False. Using Monte Carlo return.''])
                  else
                    (case elementwise (+) advantages value_preds of
                       Inl e \<Rightarrow> Inl e
                     | Inr returns \<Rightarrow> Inr (returns, normalized_advantages, []))
                else Inr (returns, normalized_advantages, []))"

section \<open>Losses\<close>

text \<open>
  \<open>tf.clip_by_value(t, lo, hi)\<close> is \<open>maximum(minimum(t, hi), lo)\<close>.
\<close>

definition clip_by_value :: "real \<Rightarrow> real \<Rightarrow> real \<Rightarrow> real" where
  "clip_by_value x clip_value_min clip_value_max = max (min x clip_value_max) clip_value_min"

text \<open>
  \<open>policy_gradient_loss\<close>. \<open>log_probability\<close> is \<open>common_utils.log_probability\<close>
  (with the agent's action spec), a collaborator; \<open>time_steps\<close> is only checked against
  the time step spec and is left out.
\<close>

definition policy_gradient_loss ::
  "ppo_agent \<Rightarrow> ('d \<Rightarrow> 'a \<Rightarrow> tensor) \<Rightarrow> 'a \<Rightarrow> tensor \<Rightarrow> tensor \<Rightarrow> 'd \<Rightarrow> tensor \<Rightarrow>
   error + real option" where
  "policy_gradient_loss self log_probability actions sample_action_log_probs advantages
     current_policy_distribution valid_mask =
     (let action_log_prob = log_probability current_policy_distribution actions;
          action_log_prob =
            (if log_prob_clipping self > 0
             then tmap (\<lambda>v. clip_by_value v (- log_prob_clipping self) (log_prob_clipping self))
                    action_log_prob
             else action_log_prob)
      in case elementwise (-) action_log_prob sample_action_log_probs of
           Inl e \<Rightarrow> Inl e
         | Inr log_ratio \<Rightarrow>
             let importance_ratio = tmap exp log_ratio;
                 importance_ratio_clipped =
                   tmap (\<lambda>v. clip_by_value v (1 - importance_ratio_clipping self)
                                (1 + importance_ratio_clipping self)) importance_ratio
             in case elementwise (*) importance_ratio advantages of
                  Inl e \<Rightarrow> Inl e
                | Inr per_timestep_objective \<Rightarrow>
                case elementwise (*) importance_ratio_clipped advantages of
                  Inl e \<Rightarrow> Inl e
                | Inr per_timestep_objective_clipped \<Rightarrow>
                case elementwise min per_timestep_objective per_timestep_objective_clipped of
                  Inl e \<Rightarrow> Inl e
                | Inr per_timestep_objective_min \<Rightarrow>
                    let policy_gradient_loss =
                          (if importance_ratio_clipping self > 0
                           then tmap uminus per_timestep_objective_min
                           else tmap uminus per_timestep_objective)
                    in case elementwise (*) policy_gradient_loss valid_mask of
                         Inl e \<Rightarrow> Inl e
                       | Inr masked \<Rightarrow> Inr (reduce_mean masked))"

text \<open>
  One entry of \<open>policy_gradient_loss\<close> before the sign change and the mask, written on
  scalars: the log-probability of the current policy is clipped (when
  \<open>log_prob_clipping\<close> is positive) before the sampled log-probability is subtracted,
  the ratio is the exponential of that difference, and the minimum with the clipped
  ratio's objective is taken only when \<open>importance_ratio_clipping\<close> is positive.
\<close>

definition surrogate_objective :: "ppo_agent \<Rightarrow> real \<Rightarrow> real \<Rightarrow> real \<Rightarrow> real" where
  "surrogate_objective self new_log_prob old_log_prob advantage =
     (let ratio = exp ((if log_prob_clipping self > 0
                        then clip_by_value new_log_prob (- log_prob_clipping self)
                               (log_prob_clipping self)
                        else new_log_prob) - old_log_prob);
          ratio_clipped = clip_by_value ratio (1 - importance_ratio_clipping self)
                            (1 + importance_ratio_clipping self)
      in if importance_ratio_clipping self > 0
         then min (ratio * advantage) (ratio_clipped * advantage)
         else ratio * advantage)"





text \<open>
  \<open>agent_kl_divergence\<close> is the method \<open>_kl_divergence\<close>: the old distribution is
  rebuilt from the stored parameters and compared with the current one. Both steps are
  collaborators (\<open>ppo_utils.get_distribution_from_params_and_classes\<close> and
  \<open>ppo_utils.nested_kl_divergence\<close>); the result has one entry per batch row and
  timestep and no mask is applied here.
\<close>

definition agent_kl_divergence ::
  "('p \<Rightarrow> 'd) \<Rightarrow> ('d \<Rightarrow> 'd \<Rightarrow> tensor) \<Rightarrow> 'p \<Rightarrow> 'd \<Rightarrow> tensor" where
  "agent_kl_divergence get_distribution_from_params_and_classes nested_kl_divergence
     action_distribution_parameters current_policy_distribution =
     (let old_actions_distribution =
            get_distribution_from_params_and_classes action_distribution_parameters
      in nested_kl_divergence old_actions_distribution current_policy_distribution)"






section \<open>The adaptive KL coefficient\<close>

text \<open>
  \<open>tf.case(pred_fn_pairs, default, exclusive=True)\<close>: the value of the one true
  predicate, the default when none is true, and an error when more than one is.
\<close>

definition tf_case_exclusive :: "(bool \<times> 'a) list \<Rightarrow> 'a \<Rightarrow> error + 'a" where
  "tf_case_exclusive pred_fn_pairs default_fn =
     (case filter fst pred_fn_pairs of
        [] \<Rightarrow> Inr default_fn
      | [(_, v)] \<Rightarrow> Inr v
      | _ \<Rightarrow> Inl MultipleConditionsTrue)"

text \<open>
  \<open>update_adaptive_kl_beta\<close> returns the agent with the variable assigned. A comparison
  with a not-a-number mean is false. \<open>10e-16\<close> is 10 * 10^-16.
\<close>

definition update_adaptive_kl_beta :: "ppo_agent \<Rightarrow> tensor \<Rightarrow> error + ppo_agent" where
  "update_adaptive_kl_beta self kl_divergence =
     (case adaptive_kl_beta self of
        None \<Rightarrow> Inr self
      | Some beta \<Rightarrow>
          let mean_kl = reduce_mean kl_divergence;
              mean_kl_below_bound =
                (case mean_kl of
                   None \<Rightarrow> False
                 | Some m \<Rightarrow> m < adaptive_kl_target self * (1 - adaptive_kl_tolerance self));
              mean_kl_above_bound =
                (case mean_kl of
                   None \<Rightarrow> False
                 | Some m \<Rightarrow> m > adaptive_kl_target self * (1 + adaptive_kl_tolerance self))
          in case tf_case_exclusive
                    [(mean_kl_below_bound, 1 / (15 / 10)), (mean_kl_above_bound, 15 / 10)] 1 of
               Inl e \<Rightarrow> Inl e
             | Inr adaptive_kl_update_factor \<Rightarrow>
                 let new_adaptive_kl_beta = max (beta * adaptive_kl_update_factor) (10 / 10 ^ 16)
                 in Inr (self\<lparr>adaptive_kl_beta := Some new_adaptive_kl_beta\<rparr>))"

section \<open>One training call\<close>

text \<open>
  \<open>train_from_experience\<close> threads three pieces of state through the train ops of the
  epochs and the updates that follow them: the weights of the networks (type \<open>'w\<close>),
  the agent's variable \<open>adaptive_kl_beta\<close>, and the statistics of the observation and
  reward normalizers (type \<open>'n\<close>, \<open>None\<close> when the agent has no such normalizer).
\<close>

record ('w, 'n) train_state =
  agent :: ppo_agent
  weights :: 'w
  observation_normalizer :: "'n option"
  reward_normalizer :: "'n option"

text \<open>
  What the call reads from \<open>experience\<close> before any arithmetic of its own, each through
  a collaborator: the whole trajectory for the value network, the transitions
  (\<open>trajectory.to_transition\<close>: time steps, actions, stored distribution parameters, the
  rewards and discounts of the next time steps), \<open>common_utils.get_episode_mask\<close> and
  \<open>ppo_utils.make_timestep_mask\<close> of the next time steps. Observations \<open>'o\<close>, actions
  \<open>'a\<close> and distribution parameters \<open>'p\<close> are nests the file never looks into.
\<close>

record ('o, 'a, 'p) experience =
  batch_trajectory :: 'o
  batch_time_steps :: 'o
  batch_actions :: 'a
  batch_action_distribution_parameters :: 'p
  batch_next_reward :: tensor
  batch_next_discount :: tensor
  batch_episode_mask :: tensor
  batch_valid_mask :: tensor

text \<open>
  The collaborators. \<open>policy_distribution\<close> is \<open>self._policy.distribution(...).action\<close>
  and \<open>apply_value_network\<close> is \<open>self._policy.apply_value_network\<close>: both read the
  current weights and the observation normalizer the policy was built with.
  \<open>train_op\<close> is one run of the op that \<open>build_train_op\<close> creates
  (\<open>tf.contrib.training.create_train_op\<close> on the total loss): the optimizer's step on the
  weights, for the batch, the old log-probabilities, the returns and the normalized
  advantages of this call. \<open>normalizer_normalize\<close> (with \<open>center_mean=False\<close>),
  \<open>update_observations\<close> and \<open>update_rewards\<close> are the methods \<open>normalize\<close> and
  \<open>update\<close> of \<open>StreamingTensorNormalizer\<close>.
\<close>

record ('w, 'n, 'o, 'a, 'p, 'd) collaborators =
  policy_distribution :: "'w \<Rightarrow> 'n option \<Rightarrow> 'o \<Rightarrow> 'd"
  apply_value_network :: "'w \<Rightarrow> 'n option \<Rightarrow> 'o \<Rightarrow> tensor"
  get_distribution_from_params_and_classes :: "'p \<Rightarrow> 'd"
  nested_kl_divergence :: "'d \<Rightarrow> 'd \<Rightarrow> tensor"
  log_probability :: "'d \<Rightarrow> 'a \<Rightarrow> tensor"
  train_op ::
    "('w, 'n) train_state \<Rightarrow> ('o, 'a, 'p) experience \<Rightarrow> tensor \<Rightarrow> tensor \<Rightarrow> tensor \<Rightarrow> 'w"
  normalizer_normalize :: "'n \<Rightarrow> tensor \<Rightarrow> real \<Rightarrow> tensor"
  update_observations :: "'n \<Rightarrow> 'o \<Rightarrow> 'n"
  update_rewards :: "'n \<Rightarrow> tensor \<Rightarrow> 'n"

text \<open>
  The stateful ops of one call, in the order in which the control dependencies let them
  run; the model keeps this list beside the state.
\<close>

datatype op =
  TrainOp nat | KLDivergence | UpdateAdaptiveKLBeta | UpdateObservationNormalizer
  | UpdateRewardNormalizer

text \<open>
  The epoch loop: each train op depends on the previous one and updates the weights; the
  variable and the normalizers are not written inside the loop.
\<close>

fun run_epochs ::
  "(('w, 'n) train_state \<Rightarrow> 'w) \<Rightarrow> nat list \<Rightarrow> ('w, 'n) train_state \<times> op list \<Rightarrow>
   ('w, 'n) train_state \<times> op list" where
  "run_epochs step [] (st, ops) = (st, ops)"
| "run_epochs step (i_epoch # rest) (st, ops) =
     run_epochs step rest (st\<lparr>weights := step st\<rparr>, ops @ [TrainOp i_epoch])"

text \<open>
  \<open>train_from_experience\<close>. Errors of graph construction and of the run both end the
  call: a failing return or advantage computation, \<open>tf.identity(last_train_op)\<close> when no
  epoch replaced the initial \<open>tf.no_op()\<close>, and the exclusive case of the coefficient
  update. After the epochs the KL divergence is taken from \<open>_kl_divergence\<close> as it
  stands and handed to \<open>update_adaptive_kl_beta\<close>; then the normalizers are updated
  from \<open>time_steps.observation\<close> and \<open>next_time_steps.reward\<close>.
\<close>

definition train_from_experience ::
  "('w, 'n, 'o, 'a, 'p, 'd) collaborators \<Rightarrow> ('w, 'n) train_state \<Rightarrow> ('o, 'a, 'p) experience \<Rightarrow>
   error + (('w, 'n) train_state \<times> op list)" where
  "train_from_experience lib st experience =
     (let self = agent st;
          old_actions_distribution =
            get_distribution_from_params_and_classes lib
              (batch_action_distribution_parameters experience);
          act_log_probs =
            log_probability lib old_actions_distribution (batch_actions experience);
          value_preds = apply_value_network lib (weights st) (observation_normalizer st)
                          (batch_trajectory experience)
      in case compute_return_and_advantage self
                (map_option (normalizer_normalize lib) (reward_normalizer st))
                (batch_next_discount experience) (batch_next_reward experience)
                (batch_episode_mask experience)
                value_preds of
           Inl e \<Rightarrow> Inl e
         | Inr (returns, normalized_advantages, warnings) \<Rightarrow>
             if num_epochs self \<le> 0 then Inl NotATensor
             else
               let (st, ops) =
                     run_epochs
                       (\<lambda>st. train_op lib st experience act_log_probs returns normalized_advantages)
                       [0..<nat (num_epochs self)] (st, []);
                   kl_divergence =
                     agent_kl_divergence (get_distribution_from_params_and_classes lib)
                       (nested_kl_divergence lib)
                       (batch_action_distribution_parameters experience)
                       (policy_distribution lib (weights st) (observation_normalizer st)
                          (batch_time_steps experience));
                   ops = ops @ [KLDivergence]
               in case update_adaptive_kl_beta (agent st) kl_divergence of
                    Inl e \<Rightarrow> Inl e
                  | Inr self \<Rightarrow>
                      let st = st\<lparr>agent := self\<rparr>;
                          ops = ops @ [UpdateAdaptiveKLBeta];
                          (st, ops) =
                            (case observation_normalizer st of
                               None \<Rightarrow> (st, ops)
                             | Some n \<Rightarrow>
                                 (st\<lparr>observation_normalizer :=
                                       Some (update_observations lib n
                                               (batch_time_steps experience))\<rparr>,
                                  ops @ [UpdateObservationNormalizer]));
                          (st, ops) =
                            (case reward_normalizer st of
                               None \<Rightarrow> (st, ops)
                             | Some n \<Rightarrow>
                                 (st\<lparr>reward_normalizer :=
                                       Some (update_rewards lib n
                                               (batch_next_reward experience))\<rparr>,
                                  ops @ [UpdateRewardNormalizer]))
                      in Inr (st, ops))"

text \<open>
  A small training call for the examples below: the weights count the train ops that
  have run, a normalizer's state counts its updates, the policy distribution is
  the weight count itself, and the KL divergence of the two timesteps grows with it
  (w/200 and 3w/200). The batch is one row of two timesteps, the second one invalid.
\<close>

definition demo_lib :: "(nat, nat, unit, unit, unit, nat) collaborators" where
  "demo_lib =
     \<lparr>policy_distribution = (\<lambda>w n ob. w),
      apply_value_network = (\<lambda>w n ob. Tensor 1 3 [[99 / 100, 0, 0]]),
      get_distribution_from_params_and_classes = (\<lambda>p. 0),
      nested_kl_divergence = (\<lambda>old new. Tensor 1 2 [[real new / 200, 3 * real new / 200]]),
      log_probability = (\<lambda>d a. Tensor 1 2 [[0, 0]]),
      train_op = (\<lambda>st ex lp ret adv. Suc (weights st)),
      normalizer_normalize = (\<lambda>n x c. x),
      update_observations = (\<lambda>n ob. Suc n),
      update_rewards = (\<lambda>n r. Suc n)\<rparr>"

definition demo_state :: "(nat, nat) train_state" where
  "demo_state =
     \<lparr>agent = default_agent\<lparr>num_epochs := 2\<rparr>, weights = 0,
      observation_normalizer = Some 0, reward_normalizer = Some 0\<rparr>"

definition demo_experience :: "(unit, unit, unit) experience" where
  "demo_experience =
     \<lparr>batch_trajectory = (), batch_time_steps = (), batch_actions = (),
      batch_action_distribution_parameters = (),
      batch_next_reward = Tensor 1 2 [[1, 1]], batch_next_discount = Tensor 1 2 [[1, 1]],
      batch_episode_mask = Tensor 1 2 [[1, 1]], batch_valid_mask = Tensor 1 2 [[1, 0]]\<rparr>"

text \<open>
  A proof device: the tensor that both scans of the agent return, transposed back, for
  an arbitrary step function.
\<close>

definition scanned ::
  "(real list \<Rightarrow> real list \<times> real list \<Rightarrow> real list) \<Rightarrow> tensor \<Rightarrow> tensor \<Rightarrow> tensor" where
  "scanned fn X Y = tabulate (dim0 X) (dim1 X) (\<lambda>b t.
      tf_scan_reverse fn (zip (elems (tf_transpose X)) (elems (tf_transpose Y)))
        (replicate (dim0 X) 0) ! t ! b)"

section \<open>Facts about tensors and the scan\<close>

lemma well_formed_tabulate: "well_formed (tabulate m n g)"
  by (simp add: well_formed_def tabulate_def)

lemma dims_tabulate: "dim0 (tabulate m n g) = m" "dim1 (tabulate m n g) = n"
  by (simp_all add: tabulate_def)

lemma entry_tabulate: "i < m \<Longrightarrow> j < n \<Longrightarrow> entry (tabulate m n g) i j = g i j"
  by (simp add: entry_def tabulate_def)

lemma elems_tabulate_nth: "i < m \<Longrightarrow> elems (tabulate m n g) ! i = map (g i) [0..<n]"
  by (simp add: tabulate_def)

lemma length_elems_tabulate: "length (elems (tabulate m n g)) = m"
  by (simp add: tabulate_def)

lemma tf_scan_reverse_length: "length (tf_scan_reverse fn xs init) = length xs"
  by (induction xs) (simp_all add: Let_def)

lemma tf_scan_reverse_nth:
  "i < length xs \<Longrightarrow>
   tf_scan_reverse fn xs init ! i =
     fn (if Suc i < length xs then tf_scan_reverse fn xs init ! Suc i else init) (xs ! i)"
proof (induction xs arbitrary: i)
  case Nil
  then show ?case by simp
next
  case (Cons x xs)
  show ?case
  proof (cases i)
    case 0
    have "length (tf_scan_reverse fn xs init) = length xs"
      by (rule tf_scan_reverse_length)
    then show ?thesis using 0
      by (cases "tf_scan_reverse fn xs init") (auto simp: Let_def)
  next
    case (Suc k)
    then have "k < length xs" using Cons.prems by simp
    from Cons.IH [OF this] show ?thesis using Suc by (simp add: Let_def)
  qed
qed

lemma tf_scan_reverse_invariant:
  assumes "P init" and "\<And>a x. P a \<Longrightarrow> x \<in> set xs \<Longrightarrow> P (fn a x)"
  shows "\<forall>y \<in> set (tf_scan_reverse fn xs init). P y"
  using assms
proof (induction xs)
  case Nil
  then show ?case by simp
next
  case (Cons x xs)
  then have IH: "\<forall>y \<in> set (tf_scan_reverse fn xs init). P y" by simp
  have "P (case tf_scan_reverse fn xs init of [] \<Rightarrow> init | a # _ \<Rightarrow> a)"
    using IH Cons.prems(1) by (cases "tf_scan_reverse fn xs init") auto
  then show ?case using IH Cons.prems(2) by (simp add: Let_def)
qed

lemma entry_Tensor: "entry (Tensor m n xs) i j = xs ! i ! j"
  by (simp add: entry_def)

lemma set_elems_tabulate: "r \<in> set (elems (tabulate m n g)) \<Longrightarrow> length r = n"
  by (auto simp: tabulate_def)

lemma first_slice_tabulate:
  "0 < m \<Longrightarrow> first_slice (tabulate m n g) = Inr (map (g 0) [0..<n])"
  by (simp add: first_slice_def tabulate_def)

lemma tabulate_cong:
  "(\<And>i j. i < m \<Longrightarrow> j < n \<Longrightarrow> g i j = h i j) \<Longrightarrow> tabulate m n g = tabulate m n h"
  by (simp add: tabulate_def)

lemma broadcast_dim_same: "broadcast_dim m m = Some m"
  by (simp add: broadcast_dim_def)

lemma elementwise_same_shape:
  assumes "dim0 a = dim0 b" and "dim1 a = dim1 b"
  shows "elementwise f a b =
    Inr (tabulate (dim0 a) (dim1 a) (\<lambda>i j. f (entry a i j) (entry b i j)))"
proof -
  have "tabulate (dim0 a) (dim1 a) (\<lambda>i j. f (broadcast_entry a i j) (broadcast_entry b i j)) =
        tabulate (dim0 a) (dim1 a) (\<lambda>i j. f (entry a i j) (entry b i j))"
    using assms by (intro tabulate_cong) (auto simp: broadcast_entry_def)
  then show ?thesis
    using assms by (simp add: elementwise_def broadcast_dim_same)
qed

lemma dims_slice:
  "dim0 (slice_from_1 t) = dim0 t" "dim1 (slice_from_1 t) = dim1 t - 1"
  "dim0 (slice_to_last t) = dim0 t" "dim1 (slice_to_last t) = dim1 t - 1"
  by (simp_all add: slice_from_1_def slice_to_last_def dims_tabulate)

lemma entry_slice:
  "i < dim0 t \<Longrightarrow> Suc j < dim1 t \<Longrightarrow> entry (slice_from_1 t) i j = entry t i (Suc j)"
  "i < dim0 t \<Longrightarrow> Suc j < dim1 t \<Longrightarrow> entry (slice_to_last t) i j = entry t i j"
  by (simp_all add: slice_from_1_def slice_to_last_def entry_tabulate)

text \<open>The scan over two transposed tensors, read entry by entry.\<close>

lemma transposed_scan_entry:
  fixes X Y :: tensor and g :: "real \<Rightarrow> real \<Rightarrow> real \<Rightarrow> real"
    and fn :: "real list \<Rightarrow> real list \<times> real list \<Rightarrow> real list"
  defines "S \<equiv> tf_scan_reverse fn (zip (elems (tf_transpose X)) (elems (tf_transpose Y)))
                 (replicate (dim0 X) 0)"
  assumes dims: "dim0 Y = dim0 X" "dim1 Y = dim1 X"
    and fn_len: "\<And>a x y. length a = dim0 X \<Longrightarrow> length x = dim0 X \<Longrightarrow> length y = dim0 X \<Longrightarrow>
                  length (fn a (x, y)) = dim0 X"
    and fn_nth: "\<And>a x y b. length a = dim0 X \<Longrightarrow> length x = dim0 X \<Longrightarrow> length y = dim0 X \<Longrightarrow>
                  b < dim0 X \<Longrightarrow> fn a (x, y) ! b = g (a ! b) (x ! b) (y ! b)"
    and b: "b < dim0 X" and t: "t < dim1 X"
  shows "length S = dim1 X"
    and "length (S ! t) = dim0 X"
    and "S ! t ! b = g (if Suc t < dim1 X then S ! Suc t ! b else 0) (entry X b t) (entry Y b t)"
proof -
  define xs where "xs = zip (elems (tf_transpose X)) (elems (tf_transpose Y))"
  define z where "z = replicate (dim0 X) (0::real)"
  have S: "S = tf_scan_reverse fn xs z" by (simp add: S_def xs_def z_def)
  have len: "length xs = dim1 X"
    by (simp add: xs_def tf_transpose_def length_elems_tabulate dims)
  show lenS: "length S = dim1 X"
    by (simp add: S tf_scan_reverse_length len)
  have xs_t: "xs ! t = (map (\<lambda>j. entry X j t) [0..<dim0 X], map (\<lambda>j. entry Y j t) [0..<dim0 X])"
    using t by (simp add: xs_def tf_transpose_def length_elems_tabulate elems_tabulate_nth dims)
  have "\<forall>y \<in> set (tf_scan_reverse fn xs z). length y = dim0 X"
  proof (rule tf_scan_reverse_invariant)
    show "length z = dim0 X" by (simp add: z_def)
  next
    fix a :: "real list" and x
    assume a: "length a = dim0 X" and x: "x \<in> set xs"
    obtain r d where rd: "x = (r, d)" by (cases x)
    from x rd have "r \<in> set (elems (tf_transpose X))" and "d \<in> set (elems (tf_transpose Y))"
      by (auto simp: xs_def dest: set_zip_leftD set_zip_rightD)
    then have "length r = dim0 X" and "length d = dim0 X"
      using dims by (auto simp: tf_transpose_def dest: set_elems_tabulate)
    with a rd show "length (fn a x) = dim0 X" by (simp add: fn_len)
  qed
  then have rows: "length (S ! k) = dim0 X" if "k < dim1 X" for k
    using that lenS by (simp add: S)
  from rows [OF t] show "length (S ! t) = dim0 X" .
  define nxt where "nxt = (if Suc t < dim1 X then S ! Suc t else z)"
  have next_len: "length nxt = dim0 X"
    using rows by (simp add: nxt_def z_def)
  have step: "S ! t = fn nxt (xs ! t)"
    unfolding nxt_def S
    using tf_scan_reverse_nth [of t xs fn z] t len by simp
  have "S ! t ! b = g (nxt ! b) (entry X b t) (entry Y b t)"
    unfolding step xs_t using b next_len by (subst fn_nth) simp_all
  moreover have "nxt ! b = (if Suc t < dim1 X then S ! Suc t ! b else 0)"
    using b by (simp add: nxt_def z_def)
  ultimately show "S ! t ! b =
      g (if Suc t < dim1 X then S ! Suc t ! b else 0) (entry X b t) (entry Y b t)"
    by simp
qed

lemma scanned_entry:
  fixes g :: "real \<Rightarrow> real \<Rightarrow> real \<Rightarrow> real"
  assumes dims: "dim0 Y = dim0 X" "dim1 Y = dim1 X"
    and fn_len: "\<And>a x y. length a = dim0 X \<Longrightarrow> length x = dim0 X \<Longrightarrow> length y = dim0 X \<Longrightarrow>
           length (fn a (x, y)) = dim0 X"
    and fn_nth: "\<And>a x y b. length a = dim0 X \<Longrightarrow> length x = dim0 X \<Longrightarrow> length y = dim0 X \<Longrightarrow>
           b < dim0 X \<Longrightarrow> fn a (x, y) ! b = g (a ! b) (x ! b) (y ! b)"
    and b: "b < dim0 X" and t: "t < dim1 X"
  shows "entry (scanned fn X Y) b t =
    g (if Suc t < dim1 X then entry (scanned fn X Y) b (Suc t) else 0) (entry X b t) (entry Y b t)"
proof -
  define S where "S = tf_scan_reverse fn (zip (elems (tf_transpose X)) (elems (tf_transpose Y)))
                 (replicate (dim0 X) 0)"
  have sc: "scanned fn X Y = tabulate (dim0 X) (dim1 X) (\<lambda>b t. S ! t ! b)"
    by (simp only: scanned_def S_def)
  have step: "S ! t ! b = g (if Suc t < dim1 X then S ! Suc t ! b else 0) (entry X b t) (entry Y b t)"
    unfolding S_def
    by (rule transposed_scan_entry(3) [where g = g, OF dims fn_len fn_nth b t])
  have here: "entry (scanned fn X Y) b t = S ! t ! b"
    unfolding sc using b t by (rule entry_tabulate)
  have there: "entry (scanned fn X Y) b (Suc t) = S ! Suc t ! b" if "Suc t < dim1 X"
    unfolding sc using b that by (rule entry_tabulate)
  show ?thesis
  proof (cases "Suc t < dim1 X")
    case True
    then show ?thesis using step here there by (simp only: if_True)
  next
    case False
    then show ?thesis using step here by (simp only: if_False)
  qed
qed

lemma scanned_shape:
  "well_formed (scanned fn X Y)" "dim0 (scanned fn X Y) = dim0 X" "dim1 (scanned fn X Y) = dim1 X"
  by (simp_all add: scanned_def well_formed_tabulate dims_tabulate)

lemma discounted_accumulate_rewards_length:
  "length a = n \<Longrightarrow> length r = n \<Longrightarrow> length d = n \<Longrightarrow>
   length (discounted_accumulate_rewards a (r, d)) = n"
  by (simp add: discounted_accumulate_rewards_def)

lemma discounted_accumulate_rewards_nth:
  "b < length a \<Longrightarrow> b < length r \<Longrightarrow> b < length d \<Longrightarrow>
   discounted_accumulate_rewards a (r, d) ! b = a ! b * d ! b + r ! b"
  by (simp add: discounted_accumulate_rewards_def)

lemma compute_returns_unfold:
  assumes "shape rewards = shape discounts" and "0 < dim1 rewards"
  shows "compute_returns rewards discounts eps =
    Inr (scanned discounted_accumulate_rewards rewards discounts)"
  using assms
  by (simp add: compute_returns_def tf_transpose_def first_slice_tabulate dims_tabulate
      zeros_like_def Let_def entry_Tensor shape_def scanned_def)

lemma compute_returns_entry:
  assumes sh: "shape rewards = shape discounts"
    and b: "b < dim0 rewards" and t: "t < dim1 rewards"
  shows "entry (scanned discounted_accumulate_rewards rewards discounts) b t =
           entry rewards b t + entry discounts b t *
           (if Suc t < dim1 rewards
            then entry (scanned discounted_accumulate_rewards rewards discounts) b (Suc t)
            else 0)"
proof -
  have dims: "dim0 discounts = dim0 rewards" "dim1 discounts = dim1 rewards"
    using sh by (simp_all add: shape_def)
  show ?thesis
    by (subst scanned_entry [where g = "\<lambda>a r d. a * d + r" and Y = discounts, OF dims _ _ b t])
       (simp_all add: discounted_accumulate_rewards_length discounted_accumulate_rewards_nth
          mult.commute)
qed

lemma gae_step_length:
  "length a = n \<Longrightarrow> length x = n \<Longrightarrow> length y = n \<Longrightarrow> length (gae_step self a (x, y)) = n"
  by (simp add: gae_step_def)

lemma gae_step_nth:
  "b < length a \<Longrightarrow> b < length x \<Longrightarrow> b < length y \<Longrightarrow>
   gae_step self a (x, y) ! b = x ! b + y ! b * a ! b * lambda_value self"
  by (simp add: gae_step_def)

lemma compute_advantages_gae_unfold:
  assumes gae: "use_gae self"
    and sh: "shape rewards = shape discounts"
    and vp: "dim0 value_preds = dim0 rewards" "dim1 value_preds = Suc (dim1 rewards)"
    and T: "0 < dim1 rewards"
  shows "compute_advantages self rewards returns discounts value_preds =
    Inr (scanned (gae_step self)
      (tabulate (dim0 rewards) (dim1 rewards) (\<lambda>b t.
         entry rewards b t + entry discounts b t * entry value_preds b (Suc t)
           - entry value_preds b t))
      discounts)"
proof -
  have dims: "dim0 discounts = dim0 rewards" "dim1 discounts = dim1 rewards"
    using sh by (simp_all add: shape_def)
  let ?B = "dim0 rewards" and ?T = "dim1 rewards"
  have e1: "elementwise (*) discounts (slice_from_1 value_preds) =
      Inr (tabulate ?B ?T (\<lambda>i j. entry discounts i j * entry value_preds i (Suc j)))"
    by (subst elementwise_same_shape)
       (auto simp: dims dims_slice vp entry_slice intro!: tabulate_cong)
  have e2: "elementwise (+) rewards
        (tabulate ?B ?T (\<lambda>i j. entry discounts i j * entry value_preds i (Suc j))) =
      Inr (tabulate ?B ?T (\<lambda>i j. entry rewards i j +
             entry discounts i j * entry value_preds i (Suc j)))"
    by (subst elementwise_same_shape)
       (auto simp: dims_tabulate entry_tabulate intro!: tabulate_cong)
  have e3: "elementwise (-)
        (tabulate ?B ?T (\<lambda>i j. entry rewards i j +
             entry discounts i j * entry value_preds i (Suc j)))
        (slice_to_last value_preds) =
      Inr (tabulate ?B ?T (\<lambda>i j. entry rewards i j +
             entry discounts i j * entry value_preds i (Suc j) - entry value_preds i j))"
    by (subst elementwise_same_shape)
       (auto simp: dims_tabulate entry_tabulate dims_slice vp entry_slice intro!: tabulate_cong)
  show ?thesis
    using gae T
    by (simp add: compute_advantages_def Let_def e1 e2 e3 shape_def dims dims_tabulate
        scanned_def tf_transpose_def first_slice_tabulate zeros_like_def entry_Tensor)
qed

lemma compute_advantages_gae_entry:
  fixes value_preds :: tensor and self :: ppo_agent
  assumes sh: "shape rewards = shape discounts"
    and b: "b < dim0 rewards" and t: "t < dim1 rewards"
  defines "deltas \<equiv> tabulate (dim0 rewards) (dim1 rewards) (\<lambda>b t.
         entry rewards b t + entry discounts b t * entry value_preds b (Suc t)
           - entry value_preds b t)"
  defines "A \<equiv> scanned (gae_step self) deltas discounts"
  shows "entry A b t =
      (entry rewards b t + entry discounts b t * entry value_preds b (Suc t)
         - entry value_preds b t) +
      entry discounts b t * lambda_value self *
        (if Suc t < dim1 rewards then entry A b (Suc t) else 0)"
proof -
  have dims: "dim0 discounts = dim0 deltas" "dim1 discounts = dim1 deltas"
    using sh by (simp_all add: shape_def deltas_def dims_tabulate)
  have b': "b < dim0 deltas" and t': "t < dim1 deltas"
    using b t by (simp_all add: deltas_def dims_tabulate)
  have "entry A b t =
      entry deltas b t + entry discounts b t *
        (if Suc t < dim1 deltas then entry A b (Suc t) else 0) * lambda_value self"
    unfolding A_def
    by (subst scanned_entry [where g = "\<lambda>a x y. x + y * a * lambda_value self" and Y = discounts,
          OF dims _ _ b' t'])
       (simp_all add: gae_step_length gae_step_nth)
  moreover have "entry deltas b t = entry rewards b t +
      entry discounts b t * entry value_preds b (Suc t) - entry value_preds b t"
    using b t by (simp add: deltas_def entry_tabulate)
  moreover have "dim1 deltas = dim1 rewards" by (simp add: deltas_def dims_tabulate)
  ultimately show ?thesis by (simp add: mult.assoc mult.left_commute)
qed

lemma compute_advantages_empirical:
  assumes "\<not> use_gae self"
    and "dim0 returns = dim0 value_preds" and "Suc (dim1 returns) = dim1 value_preds"
  shows "compute_advantages self rewards returns discounts value_preds =
    Inr (tabulate (dim0 returns) (dim1 returns)
           (\<lambda>b t. entry returns b t - entry value_preds b t))"
proof -
  have "elementwise (-) returns (slice_to_last value_preds) =
      Inr (tabulate (dim0 returns) (dim1 returns)
             (\<lambda>b t. entry returns b t - entry value_preds b t))"
    using assms(2,3)
    by (subst elementwise_same_shape)
       (auto simp: dims_slice entry_slice intro!: tabulate_cong)
  then show ?thesis using assms(1) by (simp add: compute_advantages_def Let_def)
qed

lemma tensor_eqI:
  assumes "well_formed a" "well_formed b" "dim0 a = dim0 b" "dim1 a = dim1 b"
    and "\<And>i j. i < dim0 a \<Longrightarrow> j < dim1 a \<Longrightarrow> entry a i j = entry b i j"
  shows "a = b"
proof (rule tensor.expand, intro conjI)
  show "dim0 a = dim0 b" "dim1 a = dim1 b" by fact+
  show "elems a = elems b"
  proof (rule nth_equalityI)
    show len: "length (elems a) = length (elems b)"
      using assms(1-3) by (simp add: well_formed_def)
    fix i assume i: "i < length (elems a)"
    then have ia: "i < dim0 a" using assms(1) by (simp add: well_formed_def)
    have la: "length (elems a ! i) = dim1 a"
      using assms(1) i by (simp add: well_formed_def)
    have lb: "length (elems b ! i) = dim1 a"
      using assms(2,4) i len by (simp add: well_formed_def)
    show "elems a ! i = elems b ! i"
    proof (rule nth_equalityI)
      show "length (elems a ! i) = length (elems b ! i)" using la lb by simp
      fix j assume "j < length (elems a ! i)"
      then have "j < dim1 a" using la by simp
      from assms(5) [OF ia this] show "elems a ! i ! j = elems b ! i ! j"
        by (simp add: entry_def)
    qed
  qed
qed

lemma gae_minus_empirical:
  fixes d V r :: "nat \<Rightarrow> real"
  assumes A: "\<And>t. t < T \<Longrightarrow> A t = (r t + d t * V (Suc t) - V t) + d t * (if Suc t < T then A (Suc t) else 0)"
    and R: "\<And>t. t < T \<Longrightarrow> R t = r t + d t * (if Suc t < T then R (Suc t) else 0)"
    and t: "t < T"
  shows "A t = (R t - V t) + prod d {t..<T} * V T"
  using t
proof (induction "T - t" arbitrary: t)
  case 0
  then show ?case by simp
next
  case (Suc n)
  show ?case
  proof (cases "Suc t < T")
    case True
    then have "n = T - Suc t" using Suc.hyps(2) by simp
    from Suc.hyps(1) [OF this True]
    have IH: "A (Suc t) = (R (Suc t) - V (Suc t)) + prod d {Suc t..<T} * V T" .
    have "prod d {t..<T} = d t * prod d {Suc t..<T}"
      using Suc.prems by (rule prod.atLeast_Suc_lessThan)
    then show ?thesis
      using A [OF Suc.prems] R [OF Suc.prems] True IH by (simp add: algebra_simps)
  next
    case False
    then have eq: "Suc t = T" using Suc.prems by simp
    have "prod d {t..<T} = d t * prod d {Suc t..<T}"
      using Suc.prems by (rule prod.atLeast_Suc_lessThan)
    then have "prod d {t..<T} = d t" using eq by simp
    then show ?thesis
      using A [OF Suc.prems] R [OF Suc.prems] False eq by (simp add: algebra_simps)
  qed
qed

lemma rounded_identity:
  "discounted_accumulate_rewards_rounded (\<lambda>x. x) = discounted_accumulate_rewards"
  "gae_step_rounded (\<lambda>x. x) = gae_step"
  "compute_returns_rounded (\<lambda>x. x) = compute_returns"
  "compute_advantages_rounded (\<lambda>x. x) = compute_advantages"
proof -
  show 1: "discounted_accumulate_rewards_rounded (\<lambda>x. x) = discounted_accumulate_rewards"
    by (intro ext) (simp add: discounted_accumulate_rewards_rounded_def
        discounted_accumulate_rewards_def)
  show 2: "gae_step_rounded (\<lambda>x. x) = gae_step"
    by (intro ext) (simp add: gae_step_rounded_def gae_step_def)
  show "compute_returns_rounded (\<lambda>x. x) = compute_returns"
    by (intro ext) (simp only: compute_returns_rounded_def compute_returns_def 1)
  show "compute_advantages_rounded (\<lambda>x. x) = compute_advantages"
    by (intro ext) (simp only: compute_advantages_rounded_def compute_advantages_def 2 minus_real_def [symmetric])
qed

lemma discounted_accumulate_rewards_rounded_length:
  "length a = n \<Longrightarrow> length r = n \<Longrightarrow> length d = n \<Longrightarrow>
   length (discounted_accumulate_rewards_rounded rnd a (r, d)) = n"
  by (simp add: discounted_accumulate_rewards_rounded_def)

lemma discounted_accumulate_rewards_rounded_nth:
  "b < length a \<Longrightarrow> b < length r \<Longrightarrow> b < length d \<Longrightarrow>
   discounted_accumulate_rewards_rounded rnd a (r, d) ! b = rnd (rnd (a ! b * d ! b) + r ! b)"
  by (simp add: discounted_accumulate_rewards_rounded_def)

lemma gae_step_rounded_length:
  "length a = n \<Longrightarrow> length x = n \<Longrightarrow> length y = n \<Longrightarrow>
   length (gae_step_rounded rnd self a (x, y)) = n"
  by (simp add: gae_step_rounded_def)

lemma gae_step_rounded_nth:
  "b < length a \<Longrightarrow> b < length x \<Longrightarrow> b < length y \<Longrightarrow>
   gae_step_rounded rnd self a (x, y) ! b =
     rnd (x ! b + rnd (rnd (y ! b * a ! b) * lambda_value self))"
  by (simp add: gae_step_rounded_def)

lemma compute_returns_rounded_unfold:
  assumes "shape rewards = shape discounts" and "0 < dim1 rewards"
  shows "compute_returns_rounded rnd rewards discounts eps =
    Inr (scanned (discounted_accumulate_rewards_rounded rnd) rewards discounts)"
  using assms
  by (simp add: compute_returns_rounded_def tf_transpose_def first_slice_tabulate dims_tabulate
      zeros_like_def Let_def entry_Tensor shape_def scanned_def)

lemma compute_returns_rounded_entry:
  assumes sh: "shape rewards = shape discounts"
    and b: "b < dim0 rewards" and t: "t < dim1 rewards"
  shows "entry (scanned (discounted_accumulate_rewards_rounded rnd) rewards discounts) b t =
           rnd (rnd ((if Suc t < dim1 rewards
            then entry (scanned (discounted_accumulate_rewards_rounded rnd) rewards discounts) b (Suc t)
            else 0) * entry discounts b t) + entry rewards b t)"
proof -
  have dims: "dim0 discounts = dim0 rewards" "dim1 discounts = dim1 rewards"
    using sh by (simp_all add: shape_def)
  show ?thesis
    by (subst scanned_entry [where g = "\<lambda>a r d. rnd (rnd (a * d) + r)" and Y = discounts,
          OF dims _ _ b t])
       (simp_all add: discounted_accumulate_rewards_rounded_length
          discounted_accumulate_rewards_rounded_nth)
qed

lemma rounded_step:
  fixes rnd :: "real \<Rightarrow> real" and u eta l :: real
  assumes rnd: "\<And>x. \<bar>rnd x - x\<bar> \<le> u * \<bar>x\<bar> + eta" and l: "l = 1"
    and a: "a = rnd (rnd (rnd (r + rnd (d * v')) - v) + rnd (rnd (d * a') * l))"
    and ret: "ret = rnd (rnd (ret' * d) + r)"
  shows "\<bar>(a - (ret - v)) - d * (a' - (ret' - v'))\<bar> \<le>
    u * gae_rounded_magnitude rnd l r d v v' ret' a' + 8 * eta"
proof -
  define x1 where "x1 = ret' * d"
  define y1 where "y1 = rnd x1"
  define x2 where "x2 = y1 + r"
  define y2 where "y2 = rnd x2"
  define x3 where "x3 = d * v'"
  define y3 where "y3 = rnd x3"
  define x4 where "x4 = r + y3"
  define y4 where "y4 = rnd x4"
  define x5 where "x5 = y4 - v"
  define y5 where "y5 = rnd x5"
  define x6 where "x6 = d * a'"
  define y6 where "y6 = rnd x6"
  define x7 where "x7 = y6 * l"
  define y7 where "y7 = rnd x7"
  define x8 where "x8 = y5 + y7"
  define y8 where "y8 = rnd x8"
  have ay: "a = y8"
    by (simp only: a y8_def x8_def y7_def x7_def y6_def x6_def y5_def x5_def y4_def x4_def
        y3_def x3_def)
  have ry: "ret = y2"
    by (simp only: ret y2_def x2_def y1_def x1_def)
  have M: "gae_rounded_magnitude rnd l r d v v' ret' a' =
      \<bar>x1\<bar> + \<bar>x2\<bar> + \<bar>x3\<bar> + \<bar>x4\<bar> + \<bar>x5\<bar> + \<bar>x6\<bar> + \<bar>x7\<bar> + \<bar>x8\<bar>"
    by (simp only: gae_rounded_magnitude_def Let_def x8_def y7_def x7_def y6_def x6_def y5_def
        x5_def y4_def x4_def y3_def x3_def x2_def y1_def x1_def)
  have e: "\<bar>y1 - x1\<bar> \<le> u * \<bar>x1\<bar> + eta" "\<bar>y2 - x2\<bar> \<le> u * \<bar>x2\<bar> + eta"
    "\<bar>y3 - x3\<bar> \<le> u * \<bar>x3\<bar> + eta" "\<bar>y4 - x4\<bar> \<le> u * \<bar>x4\<bar> + eta"
    "\<bar>y5 - x5\<bar> \<le> u * \<bar>x5\<bar> + eta" "\<bar>y6 - x6\<bar> \<le> u * \<bar>x6\<bar> + eta"
    "\<bar>y7 - x7\<bar> \<le> u * \<bar>x7\<bar> + eta" "\<bar>y8 - x8\<bar> \<le> u * \<bar>x8\<bar> + eta"
    unfolding y1_def y2_def y3_def y4_def y5_def y6_def y7_def y8_def by (rule rnd)+
  have eq: "(y8 - (y2 - v)) - d * (a' - (ret' - v')) =
      (y8 - x8) + (y5 - x5) + (y7 - x7) + (y4 - x4) + (y6 - x6) + (y3 - x3)
        - (y2 - x2) - (y1 - x1)"
    by (simp add: x8_def x7_def x6_def x5_def x4_def x3_def x2_def x1_def l algebra_simps)
  have tri: "\<bar>p + q\<bar> \<le> P + Q" if "\<bar>p\<bar> \<le> P" "\<bar>q\<bar> \<le> Q" for p q P Q :: real
    using that by linarith
  have trm: "\<bar>p - q\<bar> \<le> P + Q" if "\<bar>p\<bar> \<le> P" "\<bar>q\<bar> \<le> Q" for p q P Q :: real
    using that by linarith
  have "\<bar>(y8 - x8) + (y5 - x5) + (y7 - x7) + (y4 - x4) + (y6 - x6) + (y3 - x3)
        - (y2 - x2) - (y1 - x1)\<bar> \<le>
      (u * \<bar>x8\<bar> + eta) + (u * \<bar>x5\<bar> + eta) + (u * \<bar>x7\<bar> + eta) + (u * \<bar>x4\<bar> + eta)
        + (u * \<bar>x6\<bar> + eta) + (u * \<bar>x3\<bar> + eta) + (u * \<bar>x2\<bar> + eta) + (u * \<bar>x1\<bar> + eta)"
    by (intro trm tri e)
  also have "\<dots> = u * (\<bar>x1\<bar> + \<bar>x2\<bar> + \<bar>x3\<bar> + \<bar>x4\<bar> + \<bar>x5\<bar> + \<bar>x6\<bar> + \<bar>x7\<bar> + \<bar>x8\<bar>) + 8 * eta"
    by (simp add: distrib_left)
  finally have "\<bar>(y8 - (y2 - v)) - d * (a' - (ret' - v'))\<bar> \<le>
      u * (\<bar>x1\<bar> + \<bar>x2\<bar> + \<bar>x3\<bar> + \<bar>x4\<bar> + \<bar>x5\<bar> + \<bar>x6\<bar> + \<bar>x7\<bar> + \<bar>x8\<bar>) + 8 * eta"
    by (simp only: eq)
  then show ?thesis by (simp only: ay ry M)
qed

lemma gae_minus_empirical_rounded:
  fixes d V r A R :: "nat \<Rightarrow> real" and rnd :: "real \<Rightarrow> real" and u eta l :: real
  assumes rnd: "\<And>x. \<bar>rnd x - x\<bar> \<le> u * \<bar>x\<bar> + eta" and l: "l = 1"
    and A: "\<And>t. t < T \<Longrightarrow> A t = rnd (rnd (rnd (r t + rnd (d t * V (Suc t))) - V t) +
          rnd (rnd (d t * (if Suc t < T then A (Suc t) else 0)) * l))"
    and R: "\<And>t. t < T \<Longrightarrow> R t = rnd (rnd ((if Suc t < T then R (Suc t) else 0) * d t) + r t)"
    and c: "\<And>t. t < T \<Longrightarrow> c t = u * gae_rounded_magnitude rnd l (r t) (d t) (V t) (V (Suc t))
          (if Suc t < T then R (Suc t) else 0) (if Suc t < T then A (Suc t) else 0) + 8 * eta"
    and t: "t < T"
  shows "\<bar>A t - (R t - V t) - prod d {t..<T} * V T\<bar> \<le> (\<Sum>k = t..<T. \<bar>prod d {t..<k}\<bar> * c k)"
  using t
proof (induction "T - t" arbitrary: t)
  case 0
  then show ?case by simp
next
  case (Suc n)
  note t = Suc.prems
  define A' where "A' = (if Suc t < T then A (Suc t) else 0)"
  define R' where "R' = (if Suc t < T then R (Suc t) else 0)"
  have step: "\<bar>(A t - (R t - V t)) - d t * (A' - (R' - V (Suc t)))\<bar> \<le> c t"
    unfolding c [OF t] A'_def R'_def
    by (rule rounded_step [OF rnd l A [OF t] R [OF t]])
  have P: "prod d {t..<T} = d t * prod d {Suc t..<T}"
    using t by (rule prod.atLeast_Suc_lessThan)
  have S: "(\<Sum>k = t..<T. \<bar>prod d {t..<k}\<bar> * c k) =
      c t + \<bar>d t\<bar> * (\<Sum>k = Suc t..<T. \<bar>prod d {Suc t..<k}\<bar> * c k)"
  proof -
    have "(\<Sum>k = t..<T. \<bar>prod d {t..<k}\<bar> * c k) =
        \<bar>prod d {t..<t}\<bar> * c t + (\<Sum>k = Suc t..<T. \<bar>prod d {t..<k}\<bar> * c k)"
      using t by (rule sum.atLeast_Suc_lessThan)
    moreover have "(\<Sum>k = Suc t..<T. \<bar>prod d {t..<k}\<bar> * c k) =
        (\<Sum>k = Suc t..<T. \<bar>d t\<bar> * (\<bar>prod d {Suc t..<k}\<bar> * c k))"
    proof (rule sum.cong [OF refl])
      fix k assume "k \<in> {Suc t..<T}"
      then have "t < k" by simp
      then have "prod d {t..<k} = d t * prod d {Suc t..<k}"
        by (rule prod.atLeast_Suc_lessThan)
      then show "\<bar>prod d {t..<k}\<bar> * c k = \<bar>d t\<bar> * (\<bar>prod d {Suc t..<k}\<bar> * c k)"
        by (simp add: abs_mult)
    qed
    ultimately show ?thesis by (simp add: sum_distrib_left)
  qed
  show ?case
  proof (cases "Suc t < T")
    case True
    then have "n = T - Suc t" using Suc.hyps(2) by simp
    from Suc.hyps(1) [OF this True]
    have IH: "\<bar>A (Suc t) - (R (Suc t) - V (Suc t)) - prod d {Suc t..<T} * V T\<bar> \<le>
        (\<Sum>k = Suc t..<T. \<bar>prod d {Suc t..<k}\<bar> * c k)" .
    define G' where "G' = A (Suc t) - (R (Suc t) - V (Suc t)) - prod d {Suc t..<T} * V T"
    define e where "e = (A t - (R t - V t)) - d t * (A' - (R' - V (Suc t)))"
    have "A t - (R t - V t) - prod d {t..<T} * V T = e + d t * G'"
      using True by (simp add: e_def G'_def A'_def R'_def P algebra_simps)
    then have "\<bar>A t - (R t - V t) - prod d {t..<T} * V T\<bar> \<le> \<bar>e\<bar> + \<bar>d t\<bar> * \<bar>G'\<bar>"
      by (simp add: abs_mult [symmetric])
    also have "\<dots> \<le> c t + \<bar>d t\<bar> * (\<Sum>k = Suc t..<T. \<bar>prod d {Suc t..<k}\<bar> * c k)"
      using step IH by (auto simp: e_def G'_def intro!: add_mono mult_left_mono)
    finally show ?thesis by (simp only: S)
  next
    case False
    then have eq: "Suc t = T" using t by simp
    have "prod d {t..<T} = d t" using P eq by simp
    then have "A t - (R t - V t) - prod d {t..<T} * V T =
        (A t - (R t - V t)) - d t * (A' - (R' - V (Suc t)))"
      using False eq by (simp add: A'_def R'_def algebra_simps)
    then have "\<bar>A t - (R t - V t) - prod d {t..<T} * V T\<bar> \<le> c t"
      using step by simp
    moreover have "(\<Sum>k = t..<T. \<bar>prod d {t..<k}\<bar> * c k) = c t"
      using S eq by simp
    ultimately show ?thesis by simp
  qed
qed

lemma compute_advantages_rounded_gae_unfold:
  assumes gae: "use_gae self"
    and sh: "shape rewards = shape discounts"
    and vp: "dim0 value_preds = dim0 rewards" "dim1 value_preds = Suc (dim1 rewards)"
    and T: "0 < dim1 rewards"
  shows "compute_advantages_rounded rnd self rewards returns discounts value_preds =
    Inr (scanned (gae_step_rounded rnd self)
      (tabulate (dim0 rewards) (dim1 rewards) (\<lambda>b t.
         rnd (rnd (entry rewards b t + rnd (entry discounts b t * entry value_preds b (Suc t)))
           - entry value_preds b t)))
      discounts)"
proof -
  have dims: "dim0 discounts = dim0 rewards" "dim1 discounts = dim1 rewards"
    using sh by (simp_all add: shape_def)
  let ?B = "dim0 rewards" and ?T = "dim1 rewards"
  have e1: "elementwise (\<lambda>x y. rnd (x * y)) discounts (slice_from_1 value_preds) =
      Inr (tabulate ?B ?T (\<lambda>i j. rnd (entry discounts i j * entry value_preds i (Suc j))))"
    by (subst elementwise_same_shape)
       (auto simp: dims dims_slice vp entry_slice intro!: tabulate_cong)
  have e2: "elementwise (\<lambda>x y. rnd (x + y)) rewards
        (tabulate ?B ?T (\<lambda>i j. rnd (entry discounts i j * entry value_preds i (Suc j)))) =
      Inr (tabulate ?B ?T (\<lambda>i j. rnd (entry rewards i j +
             rnd (entry discounts i j * entry value_preds i (Suc j)))))"
    by (subst elementwise_same_shape)
       (auto simp: dims_tabulate entry_tabulate intro!: tabulate_cong)
  have e3: "elementwise (\<lambda>x y. rnd (x - y))
        (tabulate ?B ?T (\<lambda>i j. rnd (entry rewards i j +
             rnd (entry discounts i j * entry value_preds i (Suc j)))))
        (slice_to_last value_preds) =
      Inr (tabulate ?B ?T (\<lambda>i j. rnd (rnd (entry rewards i j +
             rnd (entry discounts i j * entry value_preds i (Suc j))) - entry value_preds i j)))"
    by (subst elementwise_same_shape)
       (auto simp: dims_tabulate entry_tabulate dims_slice vp entry_slice intro!: tabulate_cong)
  show ?thesis
    using gae T
    by (simp add: compute_advantages_rounded_def Let_def e1 e2 e3 shape_def dims dims_tabulate
        scanned_def tf_transpose_def first_slice_tabulate zeros_like_def entry_Tensor)
qed

lemma compute_advantages_rounded_gae_entry:
  fixes value_preds :: tensor and self :: ppo_agent and rnd :: "real \<Rightarrow> real"
  assumes sh: "shape rewards = shape discounts"
    and b: "b < dim0 rewards" and t: "t < dim1 rewards"
  defines "deltas \<equiv> tabulate (dim0 rewards) (dim1 rewards) (\<lambda>b t.
         rnd (rnd (entry rewards b t + rnd (entry discounts b t * entry value_preds b (Suc t)))
           - entry value_preds b t))"
  defines "A \<equiv> scanned (gae_step_rounded rnd self) deltas discounts"
  shows "entry A b t =
      rnd (rnd (rnd (entry rewards b t + rnd (entry discounts b t * entry value_preds b (Suc t)))
             - entry value_preds b t) +
           rnd (rnd (entry discounts b t *
                  (if Suc t < dim1 rewards then entry A b (Suc t) else 0)) * lambda_value self))"
proof -
  have dims: "dim0 discounts = dim0 deltas" "dim1 discounts = dim1 deltas"
    using sh by (simp_all add: shape_def deltas_def dims_tabulate)
  have b': "b < dim0 deltas" and t': "t < dim1 deltas"
    using b t by (simp_all add: deltas_def dims_tabulate)
  have "entry A b t =
      rnd (entry deltas b t + rnd (rnd (entry discounts b t *
        (if Suc t < dim1 deltas then entry A b (Suc t) else 0)) * lambda_value self))"
    unfolding A_def
    by (subst scanned_entry [where g = "\<lambda>a x y. rnd (x + rnd (rnd (y * a) * lambda_value self))"
          and Y = discounts, OF dims _ _ b' t'])
       (simp_all add: gae_step_rounded_length gae_step_rounded_nth)
  moreover have "entry deltas b t = rnd (rnd (entry rewards b t +
      rnd (entry discounts b t * entry value_preds b (Suc t))) - entry value_preds b t)"
    using b t by (simp add: deltas_def entry_tabulate)
  moreover have "dim1 deltas = dim1 rewards" by (simp add: deltas_def dims_tabulate)
  ultimately show ?thesis by simp
qed

lemma compute_advantages_rounded_empirical:
  assumes "\<not> use_gae self"
    and "dim0 returns = dim0 value_preds" and "Suc (dim1 returns) = dim1 value_preds"
  shows "compute_advantages_rounded rnd self rewards returns discounts value_preds =
    Inr (tabulate (dim0 returns) (dim1 returns)
           (\<lambda>b t. rnd (entry returns b t - entry value_preds b t)))"
proof -
  have "elementwise (\<lambda>x y. rnd (x - y)) returns (slice_to_last value_preds) =
      Inr (tabulate (dim0 returns) (dim1 returns)
             (\<lambda>b t. rnd (entry returns b t - entry value_preds b t)))"
    using assms(2,3)
    by (subst elementwise_same_shape)
       (auto simp: dims_slice entry_slice intro!: tabulate_cong)
  then show ?thesis using assms(1) by (simp add: compute_advantages_rounded_def Let_def)
qed

lemma demo_rnd_error: "\<bar>demo_rnd x - x\<bar> \<le> 0 * \<bar>x\<bar> + 1 / 8"
proof -
  have "\<bar>of_int (round (4 * x)) - 4 * x\<bar> \<le> 1 / 2" by (rule of_int_round_abs_le)
  then show ?thesis by (simp add: demo_rnd_def field_simps abs_if split: if_splits)
qed

lemma tf_case_exclusive_two:
  "\<not> (p \<and> q) \<Longrightarrow>
   tf_case_exclusive [(p, a), (q, b)] c = Inr (if p then a else if q then b else c)"
  by (auto simp: tf_case_exclusive_def)

lemma reduce_mean_single: "reduce_mean (Tensor 1 1 [[x]]) = Some x"
  by (simp add: reduce_mean_def)

lemma dims_tmap: "dim0 (tmap f t) = dim0 t" "dim1 (tmap f t) = dim1 t"
  by (simp_all add: tmap_def dims_tabulate)

lemma entry_tmap: "i < dim0 t \<Longrightarrow> j < dim1 t \<Longrightarrow> entry (tmap f t) i j = f (entry t i j)"
  by (simp add: tmap_def entry_tabulate)

lemma sum_list_tabulate:
  "sum_list (map sum_list (elems (tabulate m n g))) = (\<Sum>i<m. \<Sum>j<n. g i j)"
proof -
  have "sum_list (map sum_list (elems (tabulate m n g))) =
      sum_list (map (\<lambda>i. sum_list (map (g i) [0..<n])) [0..<m])"
    by (simp add: tabulate_def comp_def)
  also have "\<dots> = (\<Sum>i<m. \<Sum>j<n. g i j)"
    by (simp add: interv_sum_list_conv_sum_set_nat atLeast0LessThan)
  finally show ?thesis .
qed

lemma reduce_mean_tabulate:
  "reduce_mean (tabulate m n g) =
     (if m * n = 0 then None else Some ((\<Sum>i<m. \<Sum>j<n. g i j) / real (m * n)))"
  unfolding reduce_mean_def sum_list_tabulate by (simp add: dims_tabulate)

lemma reduce_mean_uminus:
  "reduce_mean (tabulate m n (\<lambda>i j. - g i j)) = map_option uminus (reduce_mean (tabulate m n g))"
  by (simp add: reduce_mean_tabulate sum_negf)


lemma policy_gradient_loss_unfold:
  fixes log_probability :: "'d \<Rightarrow> 'a \<Rightarrow> tensor"
    and current_policy_distribution :: 'd and actions :: 'a
  defines "new \<equiv> log_probability current_policy_distribution actions"
  assumes d: "dim0 new = m" "dim1 new = n"
    "dim0 sample_action_log_probs = m" "dim1 sample_action_log_probs = n"
    "dim0 advantages = m" "dim1 advantages = n"
    "dim0 valid_mask = m" "dim1 valid_mask = n"
  shows "policy_gradient_loss self log_probability actions sample_action_log_probs advantages
      current_policy_distribution valid_mask =
    Inr (reduce_mean (tabulate m n (\<lambda>i j.
      - surrogate_objective self (entry new i j) (entry sample_action_log_probs i j)
          (entry advantages i j) * entry valid_mask i j)))"
proof -
  define clipped where "clipped = (if log_prob_clipping self > 0
             then tmap (\<lambda>v. clip_by_value v (- log_prob_clipping self) (log_prob_clipping self)) new
             else new)"
  have cd: "dim0 clipped = m" "dim1 clipped = n"
    by (simp_all add: clipped_def dims_tmap d)
  have ce: "entry clipped i j = (if log_prob_clipping self > 0
        then clip_by_value (entry new i j) (- log_prob_clipping self) (log_prob_clipping self)
        else entry new i j)" if "i < m" "j < n" for i j
    using that by (simp add: clipped_def entry_tmap d)
  define lr where "lr = tabulate m n (\<lambda>i j. entry clipped i j - entry sample_action_log_probs i j)"
  have e1: "elementwise (-) clipped sample_action_log_probs = Inr lr"
    unfolding lr_def by (subst elementwise_same_shape) (simp_all add: cd d)
  define ratio where "ratio = tmap exp lr"
  define rc where "rc = tmap (\<lambda>v. clip_by_value v (1 - importance_ratio_clipping self)
                                (1 + importance_ratio_clipping self)) ratio"
  have rd: "dim0 ratio = m" "dim1 ratio = n" "dim0 rc = m" "dim1 rc = n"
    by (simp_all add: ratio_def rc_def dims_tmap lr_def dims_tabulate)
  have re: "entry ratio i j = exp (entry clipped i j - entry sample_action_log_probs i j)"
    if "i < m" "j < n" for i j
    using that by (simp add: ratio_def entry_tmap lr_def dims_tabulate entry_tabulate)
  have rce: "entry rc i j = clip_by_value (entry ratio i j) (1 - importance_ratio_clipping self)
      (1 + importance_ratio_clipping self)" if "i < m" "j < n" for i j
    using that by (simp add: rc_def entry_tmap rd)
  define obj where "obj = tabulate m n (\<lambda>i j. entry ratio i j * entry advantages i j)"
  define objc where "objc = tabulate m n (\<lambda>i j. entry rc i j * entry advantages i j)"
  define objm where "objm = tabulate m n (\<lambda>i j. min (entry obj i j) (entry objc i j))"
  have e2: "elementwise (*) ratio advantages = Inr obj"
    unfolding obj_def by (subst elementwise_same_shape) (simp_all add: rd d)
  have e3: "elementwise (*) rc advantages = Inr objc"
    unfolding objc_def by (subst elementwise_same_shape) (simp_all add: rd d)
  have e4: "elementwise min obj objc = Inr objm"
    unfolding objm_def
    by (subst elementwise_same_shape) (simp_all add: obj_def objc_def dims_tabulate)
  define pgl where "pgl = (if importance_ratio_clipping self > 0
                           then tmap uminus objm else tmap uminus obj)"
  have pd: "dim0 pgl = m" "dim1 pgl = n"
    by (simp_all add: pgl_def dims_tmap objm_def obj_def dims_tabulate)
  have pe: "entry pgl i j = - surrogate_objective self (entry new i j)
      (entry sample_action_log_probs i j) (entry advantages i j)" if "i < m" "j < n" for i j
    using that
    by (simp add: pgl_def entry_tmap objm_def obj_def objc_def dims_tabulate entry_tabulate
        re rce ce surrogate_objective_def Let_def)
  have e5: "elementwise (*) pgl valid_mask =
      Inr (tabulate m n (\<lambda>i j. - surrogate_objective self (entry new i j)
         (entry sample_action_log_probs i j) (entry advantages i j) * entry valid_mask i j))"
    by (subst elementwise_same_shape) (auto simp: pd d pe intro!: tabulate_cong)
  show ?thesis
    unfolding policy_gradient_loss_def Let_def
    by (simp only: e1 [unfolded clipped_def new_def] e2 [unfolded ratio_def]
        e3 [unfolded rc_def ratio_def] e4 e5 [unfolded pgl_def] sum.case)
qed






lemma elementwise_incompatible:
  "dim1 a \<noteq> dim1 b \<Longrightarrow> dim1 a \<noteq> 1 \<Longrightarrow> dim1 b \<noteq> 1 \<Longrightarrow>
   elementwise f a b = Inl IncompatibleShapes"
  by (simp add: elementwise_def broadcast_dim_def split: option.split)

lemma run_epochs_funpow:
  "run_epochs step is (st, ops) =
     (st\<lparr>weights := ((\<lambda>w. step (st\<lparr>weights := w\<rparr>)) ^^ length is) (weights st)\<rparr>,
      ops @ map TrainOp is)"
proof (induction "is" arbitrary: st ops)
  case Nil
  then show ?case by simp
next
  case (Cons i rest)
  define F where "F = (\<lambda>w. step (st\<lparr>weights := w\<rparr>))"
  have "step st = F (weights st)" by (simp add: F_def)
  then have "(F ^^ length rest) (step st) = (F ^^ Suc (length rest)) (weights st)"
    by (simp add: funpow_swap1)
  then have "((\<lambda>w. step (st\<lparr>weights := w\<rparr>)) ^^ length rest) (step st) =
      ((\<lambda>w. step (st\<lparr>weights := w\<rparr>)) ^^ length (i # rest)) (weights st)"
    by (simp add: F_def)
  then show ?case by (simp add: Cons.IH del: funpow.simps length_Cons)
qed

lemma train_from_experience_unfold:
  fixes lib :: "('w, 'n, 'o, 'a, 'p, 'd) collaborators"
    and st :: "('w, 'n) train_state" and experience :: "('o, 'a, 'p) experience"
  defines "act_log_probs \<equiv> log_probability lib
      (get_distribution_from_params_and_classes lib
         (batch_action_distribution_parameters experience)) (batch_actions experience)"
  assumes ra: "compute_return_and_advantage (agent st)
        (map_option (normalizer_normalize lib) (reward_normalizer st))
        (batch_next_discount experience) (batch_next_reward experience)
        (batch_episode_mask experience)
        (apply_value_network lib (weights st) (observation_normalizer st)
           (batch_trajectory experience)) = Inr (returns, normalized_advantages, warnings)"
    and N: "0 < num_epochs (agent st)"
  defines "final_weights \<equiv>
      ((\<lambda>w. train_op lib (st\<lparr>weights := w\<rparr>) experience act_log_probs returns
              normalized_advantages) ^^ nat (num_epochs (agent st))) (weights st)"
  defines "kl \<equiv> nested_kl_divergence lib
      (get_distribution_from_params_and_classes lib
         (batch_action_distribution_parameters experience))
      (policy_distribution lib final_weights (observation_normalizer st)
         (batch_time_steps experience))"
  assumes beta: "update_adaptive_kl_beta (agent st) kl = Inr self'"
  shows "train_from_experience lib st experience =
    Inr (st\<lparr>agent := self', weights := final_weights,
            observation_normalizer :=
              map_option (\<lambda>n. update_observations lib n (batch_time_steps experience))
                (observation_normalizer st),
            reward_normalizer :=
              map_option (\<lambda>n. update_rewards lib n (batch_next_reward experience))
                (reward_normalizer st)\<rparr>,
         map TrainOp [0..<nat (num_epochs (agent st))] @ [KLDivergence, UpdateAdaptiveKLBeta] @
         (case observation_normalizer st of None \<Rightarrow> [] | Some n \<Rightarrow> [UpdateObservationNormalizer]) @
         (case reward_normalizer st of None \<Rightarrow> [] | Some n \<Rightarrow> [UpdateRewardNormalizer]))"
proof -
  have N': "\<not> num_epochs (agent st) \<le> 0" using N by simp
  show ?thesis
    unfolding train_from_experience_def Let_def
    using beta
    by (simp only: ra sum.case prod.case N' if_False run_epochs_funpow)
       (simp add: agent_kl_divergence_def Let_def kl_def final_weights_def act_log_probs_def
          split: option.split)
qed

lemma demo_return_and_advantage:
  "compute_return_and_advantage (agent demo_state)
        (map_option (normalizer_normalize demo_lib) (reward_normalizer demo_state))
        (batch_next_discount demo_experience) (batch_next_reward demo_experience)
        (batch_episode_mask demo_experience)
        (apply_value_network demo_lib (weights demo_state) (observation_normalizer demo_state)
           (batch_trajectory demo_experience)) =
     Inr (Tensor 1 2 [[199 / 100, 1]], Tensor 1 2 [[0, 0]], [])"
  by (simp add: demo_state_def demo_lib_def demo_experience_def
      compute_return_and_advantage_def compute_returns_def compute_advantages_def
      normalize_advantages_def moments_def reduce_mean_def
      default_agent_def Let_def
      slice_from_1_def slice_to_last_def tabulate_def elementwise_def broadcast_dim_def
      broadcast_entry_def shape_def tf_transpose_def first_slice_def zeros_like_def tmap_def
      entry_def discounted_accumulate_rewards_def upt_rec)

lemma demo_final_weights:
  "((\<lambda>w. train_op demo_lib (demo_state\<lparr>weights := w\<rparr>) demo_experience lp ret adv) ^^
      nat (num_epochs (agent demo_state))) (weights demo_state) = 2"
  by (simp add: demo_lib_def demo_state_def eval_nat_numeral)

lemma demo_beta:
  "update_adaptive_kl_beta (agent demo_state) (Tensor 1 2 [[1 / 100, 3 / 100]]) =
     Inr (default_agent\<lparr>num_epochs := 2, adaptive_kl_beta := Some (3 / 2)\<rparr>)"
  by (simp add: update_adaptive_kl_beta_def demo_state_def default_agent_def reduce_mean_def
      initial_adaptive_kl_beta_def tf_case_exclusive_def Let_def)

lemma demo_run:
  "train_from_experience demo_lib demo_state demo_experience =
     Inr (\<lparr>agent = default_agent\<lparr>num_epochs := 2, adaptive_kl_beta := Some (3 / 2)\<rparr>,
           weights = 2, observation_normalizer = Some 1, reward_normalizer = Some 1\<rparr>,
          [TrainOp 0, TrainOp 1, KLDivergence, UpdateAdaptiveKLBeta,
           UpdateObservationNormalizer, UpdateRewardNormalizer])"
proof -
  have kl: "nested_kl_divergence demo_lib
      (get_distribution_from_params_and_classes demo_lib
         (batch_action_distribution_parameters demo_experience))
      (policy_distribution demo_lib 2 (observation_normalizer demo_state)
         (batch_time_steps demo_experience)) = Tensor 1 2 [[1 / 100, 3 / 100]]"
    by (simp add: demo_lib_def)
  have "train_from_experience demo_lib demo_state demo_experience =
    Inr (demo_state\<lparr>agent := default_agent\<lparr>num_epochs := 2, adaptive_kl_beta := Some (3 / 2)\<rparr>,
            weights := 2,
            observation_normalizer :=
              map_option (\<lambda>n. update_observations demo_lib n (batch_time_steps demo_experience))
                (observation_normalizer demo_state),
            reward_normalizer :=
              map_option (\<lambda>n. update_rewards demo_lib n (batch_next_reward demo_experience))
                (reward_normalizer demo_state)\<rparr>,
         map TrainOp [0..<nat (num_epochs (agent demo_state))] @
         [KLDivergence, UpdateAdaptiveKLBeta] @
         (case observation_normalizer demo_state of None \<Rightarrow> []
          | Some n \<Rightarrow> [UpdateObservationNormalizer]) @
         (case reward_normalizer demo_state of None \<Rightarrow> [] | Some n \<Rightarrow> [UpdateRewardNormalizer]))"
    using train_from_experience_unfold [OF demo_return_and_advantage, of "default_agent\<lparr>num_epochs := 2, adaptive_kl_beta := Some (3 / 2)\<rparr>"]
    by (simp only: demo_final_weights kl demo_beta) (simp add: demo_state_def)
  then show ?thesis
    by (simp add: demo_state_def demo_lib_def upt_rec)
qed

section \<open>Claims about \<open>compute_returns\<close>\<close>

text \<open>
  C1 (as amended). For every pair of rewards and discounts of equal shape with at least
  one timestep, \<open>compute_returns\<close> returns a tensor R of that shape with
  R[b][t] = rewards[b][t] + discounts[b][t] * R[b][t+1] at every timestep t, where R[b][T]
  stands for the seed 0 (T one past the last index). In particular the batch row of
  rewards [1, 1, 1] with discounts [1, 1, 0] has returns [3, 2, 1].
\<close>

theorem compute_returns_recursion:
  "(shape rewards = shape discounts \<and> 0 < dim1 rewards \<longrightarrow>
      (\<exists>R. compute_returns rewards discounts eps = Inr R \<and> well_formed R \<and>
         shape R = shape rewards \<and>
         (\<forall>b < dim0 rewards. \<forall>t < dim1 rewards.
            entry R b t = entry rewards b t + entry discounts b t *
              (if Suc t < dim1 rewards then entry R b (Suc t) else 0)))) \<and>
   compute_returns (Tensor 1 3 [[1, 1, 1]]) (Tensor 1 3 [[1, 1, 0]]) eps =
     Inr (Tensor 1 3 [[3, 2, 1]])"
proof (intro conjI impI)
  assume a: "shape rewards = shape discounts \<and> 0 < dim1 rewards"
  then have sh: "shape rewards = shape discounts" and T: "0 < dim1 rewards" by simp_all
  define R where "R = scanned discounted_accumulate_rewards rewards discounts"
  have R: "compute_returns rewards discounts eps = Inr R"
    unfolding R_def by (rule compute_returns_unfold [OF sh T])
  have "well_formed R" and "shape R = shape rewards"
    by (simp_all add: R_def scanned_shape shape_def)
  moreover have "\<forall>b < dim0 rewards. \<forall>t < dim1 rewards.
      entry R b t = entry rewards b t + entry discounts b t *
        (if Suc t < dim1 rewards then entry R b (Suc t) else 0)"
    unfolding R_def using compute_returns_entry [OF sh] by blast
  ultimately show "\<exists>R. compute_returns rewards discounts eps = Inr R \<and> well_formed R \<and>
         shape R = shape rewards \<and>
         (\<forall>b < dim0 rewards. \<forall>t < dim1 rewards.
            entry R b t = entry rewards b t + entry discounts b t *
              (if Suc t < dim1 rewards then entry R b (Suc t) else 0))"
    using R by blast
next
  show "compute_returns (Tensor 1 3 [[1, 1, 1]]) (Tensor 1 3 [[1, 1, 0]]) eps =
     Inr (Tensor 1 3 [[3, 2, 1]])"
    by (simp add: compute_returns_def shape_def tf_transpose_def tabulate_def first_slice_def
        zeros_like_def entry_def discounted_accumulate_rewards_def Let_def upt_rec)
qed

text \<open>
  The recursion alone fixes the returns of a two-step row: rewards [2, 5] with discounts
  [1/2, 1] give R[1] = 5 + 1 * 0 and R[0] = 2 + 1/2 * R[1].
\<close>

theorem compute_returns_recursion_witness:
  "\<exists>R. compute_returns (Tensor 1 2 [[2, 5]]) (Tensor 1 2 [[1 / 2, 1]]) 1000000 = Inr R \<and>
       entry R 0 1 = 5 \<and> entry R 0 0 = 9 / 2"
proof -
  let ?r = "Tensor 1 2 [[2, 5]]" and ?d = "Tensor 1 2 [[1 / 2, 1]]"
  have "shape ?r = shape ?d \<and> 0 < dim1 ?r" by (simp add: shape_def)
  with compute_returns_recursion [of ?r ?d 1000000]
  obtain R where R: "compute_returns ?r ?d 1000000 = Inr R"
    and rec: "\<forall>b < dim0 ?r. \<forall>t < dim1 ?r.
            entry R b t = entry ?r b t + entry ?d b t *
              (if Suc t < dim1 ?r then entry R b (Suc t) else 0)"
    by blast
  from rec have "entry R 0 1 = entry ?r 0 1 + entry ?d 0 1 * 0" by simp
  then have r1: "entry R 0 1 = 5" by (simp add: entry_def)
  from rec have "entry R 0 0 = entry ?r 0 0 + entry ?d 0 0 * entry R 0 1" by simp
  then have "entry R 0 0 = 9 / 2" using r1 by (simp add: entry_def)
  with R r1 show ?thesis by blast
qed

text \<open>
  C1 as stated fails on equal shapes without a timestep: for shape [1, 0] the transposed
  rewards have shape [0, 1], and the seed \<open>tf.zeros_like(rewards[0])\<close> indexes a leading
  dimension of size 0.
\<close>

theorem compute_returns_no_timestep:
  "shape (Tensor 1 0 [[]]) = shape (Tensor 1 0 [[]]) \<and>
   well_formed (Tensor 1 0 [[]]) \<and>
   compute_returns (Tensor 1 0 [[]]) (Tensor 1 0 [[]]) 1000000 = Inl SliceOutOfBounds"
  by (simp add: compute_returns_def shape_def well_formed_def tf_transpose_def tabulate_def
      first_slice_def)

text \<open>
  C9. \<open>compute_returns\<close> requires equal shapes: whenever the shapes of rewards and
  discounts differ, the call fails with the shape error, and the failure is the whole
  result: no tensor (no scan output) is returned.
\<close>

theorem compute_returns_shape_mismatch:
  "shape rewards \<noteq> shape discounts \<Longrightarrow>
   compute_returns rewards discounts eps = Inl ShapeMismatch \<and>
   (\<forall>R. compute_returns rewards discounts eps \<noteq> Inr R)"
  by (simp add: compute_returns_def)

theorem compute_returns_shape_mismatch_witness:
  "shape (Tensor 1 3 [[1, 1, 1]]) \<noteq> shape (Tensor 1 2 [[1, 0]]) \<and>
   compute_returns (Tensor 1 3 [[1, 1, 1]]) (Tensor 1 2 [[1, 0]]) 1000000 = Inl ShapeMismatch"
proof -
  have ne: "shape (Tensor 1 3 [[1, 1, 1]]) \<noteq> shape (Tensor 1 2 [[1, 0]])"
    by (simp add: shape_def)
  from compute_returns_shape_mismatch [OF ne, of 1000000] ne show ?thesis by simp
qed

text \<open>
  C10. The result of \<open>compute_returns\<close> does not depend on \<open>norm_variance_epsilon\<close>:
  any two values of that argument give the same result (the same tensor, or the same
  error), so no normalization by it is applied to the returns.
\<close>

theorem compute_returns_ignores_epsilon:
  "compute_returns rewards discounts e1 = compute_returns rewards discounts e2"
  by (simp add: compute_returns_def)

section \<open>Claims about \<open>compute_advantages\<close>\<close>

text \<open>
  C2 (as amended). With rewards, returns and discounts of one shape [B, T] and
  \<open>value_preds\<close> of shape [B, T+1], \<open>compute_advantages\<close> splits \<open>value_preds\<close> into
  value[t] = value_preds[t] and value_next[t] = value_preds[t+1]. When GAE is disabled it
  returns advantage[t] = returns[t] - value[t]. When GAE is enabled and there is at least
  one timestep it returns the reverse-time scan
  A[t] = delta[t] + discounts[t] * lambda * A[t+1] with
  delta[t] = rewards[t] + discounts[t] * value_next[t] - value[t] and seed A[T] = 0.
\<close>

theorem compute_advantages_spec:
  assumes sh: "shape rewards = shape discounts" "shape returns = shape rewards"
    and vp: "dim0 value_preds = dim0 rewards" "dim1 value_preds = Suc (dim1 rewards)"
    and T: "use_gae self \<longrightarrow> 0 < dim1 rewards"
  shows "\<exists>A. compute_advantages self rewards returns discounts value_preds = Inr A \<and>
      well_formed A \<and> shape A = shape rewards \<and>
      (\<forall>b < dim0 rewards. \<forall>t < dim1 rewards.
         entry (slice_to_last value_preds) b t = entry value_preds b t \<and>
         entry (slice_from_1 value_preds) b t = entry value_preds b (Suc t) \<and>
         entry A b t =
           (if use_gae self
            then (entry rewards b t + entry discounts b t * entry value_preds b (Suc t)
                    - entry value_preds b t) +
                 entry discounts b t * lambda_value self *
                   (if Suc t < dim1 rewards then entry A b (Suc t) else 0)
            else entry returns b t - entry value_preds b t))"
proof (cases "use_gae self")
  case True
  then have T': "0 < dim1 rewards" using T by simp
  define A where "A = scanned (gae_step self)
      (tabulate (dim0 rewards) (dim1 rewards) (\<lambda>b t.
         entry rewards b t + entry discounts b t * entry value_preds b (Suc t)
           - entry value_preds b t)) discounts"
  have "compute_advantages self rewards returns discounts value_preds = Inr A"
    unfolding A_def by (rule compute_advantages_gae_unfold [OF True sh(1) vp T'])
  moreover have "well_formed A" "shape A = shape rewards"
    by (simp_all add: A_def scanned_shape shape_def dims_tabulate)
  moreover have "\<forall>b < dim0 rewards. \<forall>t < dim1 rewards.
         entry (slice_to_last value_preds) b t = entry value_preds b t \<and>
         entry (slice_from_1 value_preds) b t = entry value_preds b (Suc t) \<and>
         entry A b t =
            (entry rewards b t + entry discounts b t * entry value_preds b (Suc t)
                    - entry value_preds b t) +
                 entry discounts b t * lambda_value self *
                   (if Suc t < dim1 rewards then entry A b (Suc t) else 0)"
    unfolding A_def using compute_advantages_gae_entry [OF sh(1)] vp
    by (simp add: entry_slice)
  ultimately show ?thesis using True by auto
next
  case False
  have d: "dim0 returns = dim0 value_preds" "Suc (dim1 returns) = dim1 value_preds"
    "dim0 returns = dim0 rewards" "dim1 returns = dim1 rewards"
    using sh vp by (auto simp: shape_def)
  define A where "A = tabulate (dim0 returns) (dim1 returns)
           (\<lambda>b t. entry returns b t - entry value_preds b t)"
  have "compute_advantages self rewards returns discounts value_preds = Inr A"
    unfolding A_def by (rule compute_advantages_empirical [OF False d(1,2)])
  moreover have "well_formed A" "shape A = shape rewards"
    by (simp_all add: A_def well_formed_tabulate shape_def dims_tabulate d(3,4))
  moreover have "\<forall>b < dim0 rewards. \<forall>t < dim1 rewards.
         entry (slice_to_last value_preds) b t = entry value_preds b t \<and>
         entry (slice_from_1 value_preds) b t = entry value_preds b (Suc t) \<and>
         entry A b t = entry returns b t - entry value_preds b t"
    using vp by (simp add: A_def entry_tabulate d(3,4) entry_slice)
  ultimately show ?thesis using False by auto
qed

theorem compute_advantages_spec_witness:
  "(\<exists>A. compute_advantages (default_agent\<lparr>use_gae := True, lambda_value := 1 / 2\<rparr>)
          (Tensor 1 2 [[1, 2]]) (Tensor 1 2 [[0, 0]]) (Tensor 1 2 [[1, 1]])
          (Tensor 1 3 [[0, 1, 2]]) = Inr A \<and>
        entry A 0 1 = 3 \<and> entry A 0 0 = 7 / 2) \<and>
   (\<exists>A. compute_advantages default_agent
          (Tensor 1 2 [[1, 2]]) (Tensor 1 2 [[5, 7]]) (Tensor 1 2 [[1, 1]])
          (Tensor 1 3 [[0, 1, 2]]) = Inr A \<and>
        entry A 0 0 = 5 \<and> entry A 0 1 = 6)"
proof
  let ?g = "default_agent\<lparr>use_gae := True, lambda_value := 1 / 2\<rparr>"
  let ?r = "Tensor 1 2 [[1, 2]]" and ?d = "Tensor 1 2 [[1, 1]]"
  let ?v = "Tensor 1 3 [[0, 1, 2]]"
  have "\<exists>A. compute_advantages ?g ?r (Tensor 1 2 [[0, 0]]) ?d ?v = Inr A \<and>
      well_formed A \<and> shape A = shape ?r \<and>
      (\<forall>b < dim0 ?r. \<forall>t < dim1 ?r.
         entry (slice_to_last ?v) b t = entry ?v b t \<and>
         entry (slice_from_1 ?v) b t = entry ?v b (Suc t) \<and>
         entry A b t =
           (if use_gae ?g
            then (entry ?r b t + entry ?d b t * entry ?v b (Suc t) - entry ?v b t) +
                 entry ?d b t * lambda_value ?g *
                   (if Suc t < dim1 ?r then entry A b (Suc t) else 0)
            else entry (Tensor 1 2 [[0, 0]]) b t - entry ?v b t))"
    by (rule compute_advantages_spec) (simp_all add: shape_def)
  then obtain A where A: "compute_advantages ?g ?r (Tensor 1 2 [[0, 0]]) ?d ?v = Inr A"
    and rec: "\<forall>b < 1. \<forall>t < 2. entry A b t =
            (entry ?r b t + entry ?d b t * entry ?v b (Suc t) - entry ?v b t) +
                 entry ?d b t * (1 / 2) * (if Suc t < 2 then entry A b (Suc t) else 0)"
    by (auto simp: default_agent_def)
  have a1: "entry A 0 1 = 3"
    using rec [rule_format, of 0 1] by (simp add: entry_def)
  have "entry A 0 0 = 7 / 2"
    using rec [rule_format, of 0 0] a1 by (simp add: entry_def)
  with A a1 show "\<exists>A. compute_advantages ?g ?r (Tensor 1 2 [[0, 0]]) ?d ?v = Inr A \<and>
        entry A 0 1 = 3 \<and> entry A 0 0 = 7 / 2"
    by blast
next
  let ?r = "Tensor 1 2 [[1, 2]]" and ?d = "Tensor 1 2 [[1, 1]]"
  let ?v = "Tensor 1 3 [[0, 1, 2]]" and ?ret = "Tensor 1 2 [[5, 7]]"
  have "\<exists>A. compute_advantages default_agent ?r ?ret ?d ?v = Inr A \<and>
      well_formed A \<and> shape A = shape ?r \<and>
      (\<forall>b < dim0 ?r. \<forall>t < dim1 ?r.
         entry (slice_to_last ?v) b t = entry ?v b t \<and>
         entry (slice_from_1 ?v) b t = entry ?v b (Suc t) \<and>
         entry A b t =
           (if use_gae default_agent
            then (entry ?r b t + entry ?d b t * entry ?v b (Suc t) - entry ?v b t) +
                 entry ?d b t * lambda_value default_agent *
                   (if Suc t < dim1 ?r then entry A b (Suc t) else 0)
            else entry ?ret b t - entry ?v b t))"
    by (rule compute_advantages_spec) (simp_all add: shape_def default_agent_def)
  then obtain A where A: "compute_advantages default_agent ?r ?ret ?d ?v = Inr A"
    and ent: "\<forall>b < 1. \<forall>t < 2. entry A b t = entry ?ret b t - entry ?v b t"
    by (auto simp: default_agent_def)
  have "entry A 0 0 = 5" and "entry A 0 1 = 6"
    using ent [rule_format, of 0 0] ent [rule_format, of 0 1] by (simp_all add: entry_def)
  with A show "\<exists>A. compute_advantages default_agent ?r ?ret ?d ?v = Inr A \<and>
        entry A 0 0 = 5 \<and> entry A 0 1 = 6"
    by blast
qed

text \<open>
  C2 as stated fails with GAE enabled and no timestep: rewards of shape [1, 0] with
  \<open>value_preds\<close> of shape [1, 1] (one extra trailing timestep) reach
  \<open>tf.zeros_like(deltas[0])\<close> on transposed deltas of shape [0, 1].
\<close>

theorem compute_advantages_gae_no_timestep:
  "use_gae (default_agent\<lparr>use_gae := True\<rparr>) \<and>
   dim1 (Tensor 1 1 [[5]]) = Suc (dim1 (Tensor 1 0 [[]])) \<and>
   compute_advantages (default_agent\<lparr>use_gae := True\<rparr>)
     (Tensor 1 0 [[]]) (Tensor 1 0 [[]]) (Tensor 1 0 [[]]) (Tensor 1 1 [[5]]) =
     Inl SliceOutOfBounds"
  by (simp add: compute_advantages_def default_agent_def Let_def slice_from_1_def
      slice_to_last_def tabulate_def elementwise_def broadcast_dim_def shape_def
      tf_transpose_def first_slice_def)

text \<open>
  In exact arithmetic, lambda = 1 and at least one timestep make the GAE advantage the
  empirical advantage returns - value_preds[:, :-1] plus a bootstrap term:
  A[b][t] = returns[b][t] - value_preds[b][t]
            + (discounts[b][t] * ... * discounts[b][T-1]) * value_preds[b][T].
\<close>

lemma gae_lambda_one_exact:
  assumes gae: "use_gae self" and lam: "lambda_value self = 1"
    and sh: "shape rewards = shape discounts"
    and vp: "dim0 value_preds = dim0 rewards" "dim1 value_preds = Suc (dim1 rewards)"
    and T: "0 < dim1 rewards"
  shows "\<exists>R A E. compute_returns rewards discounts eps = Inr R \<and>
       compute_advantages self rewards R discounts value_preds = Inr A \<and>
       compute_advantages (self\<lparr>use_gae := False\<rparr>) rewards R discounts value_preds = Inr E \<and>
       (\<forall>b < dim0 rewards. \<forall>t < dim1 rewards.
          entry E b t = entry R b t - entry value_preds b t \<and>
          entry A b t = entry E b t +
            prod (entry discounts b) {t..<dim1 rewards} * entry value_preds b (dim1 rewards)) \<and>
       ((\<forall>b < dim0 rewards. entry value_preds b (dim1 rewards) = 0) \<longrightarrow> A = E)"
proof -
  let ?B = "dim0 rewards" and ?T = "dim1 rewards"
  define R where "R = scanned discounted_accumulate_rewards rewards discounts"
  define A where "A = scanned (gae_step self)
      (tabulate ?B ?T (\<lambda>b t.
         entry rewards b t + entry discounts b t * entry value_preds b (Suc t)
           - entry value_preds b t)) discounts"
  define E where "E = tabulate ?B ?T (\<lambda>b t. entry R b t - entry value_preds b t)"
  have Rdims: "dim0 R = ?B" "dim1 R = ?T" by (simp_all add: R_def scanned_shape)
  have cR: "compute_returns rewards discounts eps = Inr R"
    unfolding R_def by (rule compute_returns_unfold [OF sh T])
  have cA: "compute_advantages self rewards R discounts value_preds = Inr A"
    unfolding A_def by (rule compute_advantages_gae_unfold [OF gae sh vp T])
  have cE: "compute_advantages (self\<lparr>use_gae := False\<rparr>) rewards R discounts value_preds = Inr E"
    unfolding E_def
    using compute_advantages_empirical [of "self\<lparr>use_gae := False\<rparr>" R value_preds rewards discounts]
    by (simp add: Rdims vp)
  have Eent: "entry E b t = entry R b t - entry value_preds b t" if "b < ?B" "t < ?T" for b t
    using that by (simp add: E_def entry_tabulate)
  have Rrec: "entry R b t = entry rewards b t + entry discounts b t *
      (if Suc t < ?T then entry R b (Suc t) else 0)" if "b < ?B" "t < ?T" for b t
    unfolding R_def using that by (rule compute_returns_entry [OF sh])
  have Arec: "entry A b t = (entry rewards b t + entry discounts b t * entry value_preds b (Suc t)
          - entry value_preds b t) +
        entry discounts b t * (if Suc t < ?T then entry A b (Suc t) else 0)"
    if "b < ?B" "t < ?T" for b t
    unfolding A_def using compute_advantages_gae_entry [where value_preds = value_preds and self = self, OF sh that] lam
    by simp
  have diff: "entry A b t = entry E b t +
      prod (entry discounts b) {t..<?T} * entry value_preds b ?T" if b: "b < ?B" and t: "t < ?T" for b t
  proof -
    have "entry A b t = (entry R b t - entry value_preds b t) +
        prod (entry discounts b) {t..<?T} * entry value_preds b ?T"
      by (rule gae_minus_empirical [where r = "entry rewards b", OF Arec Rrec t]) (use b in simp_all)
    then show ?thesis using Eent [OF b t] by simp
  qed
  have wf: "well_formed A" "well_formed E" "dim0 A = ?B" "dim1 A = ?T" "dim0 E = ?B" "dim1 E = ?T"
    by (simp_all add: A_def E_def scanned_shape well_formed_tabulate dims_tabulate)
  have zero: "A = E" if z: "\<forall>b < ?B. entry value_preds b ?T = 0"
  proof (rule tensor_eqI)
    fix i j assume "i < dim0 A" "j < dim1 A"
    then have "i < ?B" "j < ?T" by (simp_all add: wf)
    from diff [OF this] z \<open>i < ?B\<close> show "entry A i j = entry E i j" by simp
  qed (simp_all add: wf)
  show ?thesis
    using cR cA cE Eent diff zero by blast
qed

text \<open>
  C7 (as amended). With lambda = 1 and at least one timestep, the GAE advantage equals
  the empirical advantage returns - value_preds[:, :-1] plus the bootstrap term
  (discounts[b][t] * ... * discounts[b][T-1]) * value_preds[b][T], up to floating-point
  tolerance: for every rounding \<open>rnd\<close> with \<open>\<bar>rnd x - x\<bar> \<le> u * \<bar>x\<bar> + eta\<close> (float32
  short of an overflow), the two sides computed with that rounding differ by at most
  \<open>gae_tolerance\<close>, the rounding error accumulated by the two scans. So the GAE path and
  the empirical path coincide, up to that tolerance, when the final bootstrap value
  predictions value_preds[:, -1] are 0.
\<close>

theorem gae_lambda_one_tolerance:
  fixes rnd :: "real \<Rightarrow> real" and u eta :: real
  assumes rnd: "\<And>x. \<bar>rnd x - x\<bar> \<le> u * \<bar>x\<bar> + eta"
    and gae: "use_gae self" and lam: "lambda_value self = 1"
    and sh: "shape rewards = shape discounts"
    and vp: "dim0 value_preds = dim0 rewards" "dim1 value_preds = Suc (dim1 rewards)"
    and T: "0 < dim1 rewards"
  shows "\<exists>R A E. compute_returns_rounded rnd rewards discounts eps = Inr R \<and>
       compute_advantages_rounded rnd self rewards R discounts value_preds = Inr A \<and>
       compute_advantages_rounded rnd (self\<lparr>use_gae := False\<rparr>) rewards R discounts value_preds
         = Inr E \<and>
       (\<forall>b < dim0 rewards. \<forall>t < dim1 rewards.
          \<bar>entry A b t - (entry E b t +
             prod (entry discounts b) {t..<dim1 rewards} * entry value_preds b (dim1 rewards))\<bar>
          \<le> gae_tolerance u eta rnd self rewards discounts value_preds R A b t) \<and>
       ((\<forall>b < dim0 rewards. entry value_preds b (dim1 rewards) = 0) \<longrightarrow>
        (\<forall>b < dim0 rewards. \<forall>t < dim1 rewards.
          \<bar>entry A b t - entry E b t\<bar>
          \<le> gae_tolerance u eta rnd self rewards discounts value_preds R A b t))"
proof -
  let ?B = "dim0 rewards" and ?T = "dim1 rewards"
  define R where "R = scanned (discounted_accumulate_rewards_rounded rnd) rewards discounts"
  define A where "A = scanned (gae_step_rounded rnd self)
      (tabulate ?B ?T (\<lambda>b t.
         rnd (rnd (entry rewards b t + rnd (entry discounts b t * entry value_preds b (Suc t)))
           - entry value_preds b t))) discounts"
  define E where "E = tabulate ?B ?T (\<lambda>b t. rnd (entry R b t - entry value_preds b t))"
  have Rdims: "dim0 R = ?B" "dim1 R = ?T" by (simp_all add: R_def scanned_shape)
  have cR: "compute_returns_rounded rnd rewards discounts eps = Inr R"
    unfolding R_def by (rule compute_returns_rounded_unfold [OF sh T])
  have cA: "compute_advantages_rounded rnd self rewards R discounts value_preds = Inr A"
    unfolding A_def by (rule compute_advantages_rounded_gae_unfold [OF gae sh vp T])
  have cE: "compute_advantages_rounded rnd (self\<lparr>use_gae := False\<rparr>) rewards R discounts
      value_preds = Inr E"
    unfolding E_def
    using compute_advantages_rounded_empirical [of "self\<lparr>use_gae := False\<rparr>" R value_preds rnd
        rewards discounts]
    by (simp add: Rdims vp)
  have Eent: "entry E b t = rnd (entry R b t - entry value_preds b t)"
    if "b < ?B" "t < ?T" for b t
    using that by (simp add: E_def entry_tabulate)
  have Rrec: "entry R b t = rnd (rnd ((if Suc t < ?T then entry R b (Suc t) else 0) *
      entry discounts b t) + entry rewards b t)" if "b < ?B" "t < ?T" for b t
    unfolding R_def using that by (rule compute_returns_rounded_entry [OF sh])
  have Arec: "entry A b t =
      rnd (rnd (rnd (entry rewards b t + rnd (entry discounts b t * entry value_preds b (Suc t)))
             - entry value_preds b t) +
           rnd (rnd (entry discounts b t *
                  (if Suc t < ?T then entry A b (Suc t) else 0)) * lambda_value self))"
    if "b < ?B" "t < ?T" for b t
    unfolding A_def
    by (rule compute_advantages_rounded_gae_entry [where value_preds = value_preds
          and self = self and rnd = rnd, OF sh that])
  have bound: "\<bar>entry A b t - (entry E b t +
             prod (entry discounts b) {t..<?T} * entry value_preds b ?T)\<bar>
          \<le> gae_tolerance u eta rnd self rewards discounts value_preds R A b t"
    if b: "b < ?B" and t: "t < ?T" for b t
  proof -
    define c where "c = (\<lambda>k. u * gae_rounded_magnitude rnd (lambda_value self) (entry rewards b k)
                    (entry discounts b k) (entry value_preds b k) (entry value_preds b (Suc k))
                    (if Suc k < ?T then entry R b (Suc k) else 0)
                    (if Suc k < ?T then entry A b (Suc k) else 0) + 8 * eta)"
    have G: "\<bar>entry A b t - (entry R b t - entry value_preds b t) -
        prod (entry discounts b) {t..<?T} * entry value_preds b ?T\<bar> \<le>
        (\<Sum>k = t..<?T. \<bar>prod (entry discounts b) {t..<k}\<bar> * c k)"
      by (rule gae_minus_empirical_rounded [where rnd = rnd and u = u and eta = eta
            and l = "lambda_value self" and r = "entry rewards b" and R = "entry R b"
            and A = "entry A b" and V = "entry value_preds b" and d = "entry discounts b",
            OF rnd lam Arec Rrec _ t])
         (use b in \<open>simp_all add: c_def\<close>)
    have e9: "\<bar>entry E b t - (entry R b t - entry value_preds b t)\<bar> \<le>
        u * \<bar>entry R b t - entry value_preds b t\<bar> + eta"
      unfolding Eent [OF b t] by (rule rnd)
    have "\<bar>entry A b t - (entry E b t +
             prod (entry discounts b) {t..<?T} * entry value_preds b ?T)\<bar> \<le>
        (\<Sum>k = t..<?T. \<bar>prod (entry discounts b) {t..<k}\<bar> * c k) +
        (u * \<bar>entry R b t - entry value_preds b t\<bar> + eta)"
      using G e9 by linarith
    then show ?thesis
      by (simp only: gae_tolerance_def Let_def c_def)
  qed
  have zero: "\<bar>entry A b t - entry E b t\<bar>
          \<le> gae_tolerance u eta rnd self rewards discounts value_preds R A b t"
    if z: "\<forall>b < ?B. entry value_preds b ?T = 0" and b: "b < ?B" and t: "t < ?T" for b t
    using bound [OF b t] z b by simp
  show ?thesis
    using cR cA cE bound zero by blast
qed

theorem gae_lambda_one_tolerance_witness:
  "compute_returns_rounded demo_rnd (Tensor 1 2 [[0, 0]]) (Tensor 1 2 [[1, 1]]) 1000000 =
     Inr (Tensor 1 2 [[0, 0]]) \<and>
   compute_advantages_rounded demo_rnd (default_agent\<lparr>use_gae := True, lambda_value := 1\<rparr>)
     (Tensor 1 2 [[0, 0]]) (Tensor 1 2 [[0, 0]]) (Tensor 1 2 [[1, 1]])
     (Tensor 1 3 [[0, 1 / 8, 0]]) = Inr (Tensor 1 2 [[1 / 4, 0]]) \<and>
   compute_advantages_rounded demo_rnd
     (default_agent\<lparr>use_gae := True, lambda_value := 1, use_gae := False\<rparr>)
     (Tensor 1 2 [[0, 0]]) (Tensor 1 2 [[0, 0]]) (Tensor 1 2 [[1, 1]])
     (Tensor 1 3 [[0, 1 / 8, 0]]) = Inr (Tensor 1 2 [[0, 0]]) \<and>
   \<bar>entry (Tensor 1 2 [[1 / 4, 0]]) 0 0 - entry (Tensor 1 2 [[0, 0]]) 0 0\<bar> \<le>
     gae_tolerance 0 (1 / 8) demo_rnd (default_agent\<lparr>use_gae := True, lambda_value := 1\<rparr>)
       (Tensor 1 2 [[0, 0]]) (Tensor 1 2 [[1, 1]]) (Tensor 1 3 [[0, 1 / 8, 0]])
       (Tensor 1 2 [[0, 0]]) (Tensor 1 2 [[1 / 4, 0]]) 0 0 \<and>
   gae_tolerance 0 (1 / 8) demo_rnd (default_agent\<lparr>use_gae := True, lambda_value := 1\<rparr>)
       (Tensor 1 2 [[0, 0]]) (Tensor 1 2 [[1, 1]]) (Tensor 1 3 [[0, 1 / 8, 0]])
       (Tensor 1 2 [[0, 0]]) (Tensor 1 2 [[1 / 4, 0]]) 0 0 = 17 / 8"
proof -
  let ?g = "default_agent\<lparr>use_gae := True, lambda_value := 1\<rparr>"
  let ?r = "Tensor 1 2 [[0, 0]]" and ?d = "Tensor 1 2 [[1, 1]]"
  let ?v = "Tensor 1 3 [[0, 1 / 8, 0]]"
  let ?A = "Tensor 1 2 [[1 / 4, 0]]"
  have cR: "compute_returns_rounded demo_rnd ?r ?d 1000000 = Inr ?r"
    by (simp add: compute_returns_rounded_def Let_def tabulate_def shape_def tf_transpose_def
        first_slice_def zeros_like_def entry_def discounted_accumulate_rewards_rounded_def
        upt_rec demo_rnd_def round_def)
  have cA: "compute_advantages_rounded demo_rnd ?g ?r ?r ?d ?v = Inr ?A"
    by (simp add: compute_advantages_rounded_def default_agent_def Let_def slice_from_1_def
        slice_to_last_def tabulate_def elementwise_def broadcast_dim_def broadcast_entry_def
        shape_def tf_transpose_def first_slice_def zeros_like_def entry_def
        gae_step_rounded_def upt_rec demo_rnd_def round_def)
  have cE: "compute_advantages_rounded demo_rnd (?g\<lparr>use_gae := False\<rparr>) ?r ?r ?d ?v = Inr ?r"
    by (simp add: compute_advantages_rounded_def default_agent_def Let_def slice_from_1_def
        slice_to_last_def tabulate_def elementwise_def broadcast_dim_def broadcast_entry_def
        shape_def entry_def upt_rec demo_rnd_def round_def)
  have "\<exists>R A E. compute_returns_rounded demo_rnd ?r ?d 1000000 = Inr R \<and>
       compute_advantages_rounded demo_rnd ?g ?r R ?d ?v = Inr A \<and>
       compute_advantages_rounded demo_rnd (?g\<lparr>use_gae := False\<rparr>) ?r R ?d ?v = Inr E \<and>
       (\<forall>b < dim0 ?r. \<forall>t < dim1 ?r.
          \<bar>entry A b t - (entry E b t +
             prod (entry ?d b) {t..<dim1 ?r} * entry ?v b (dim1 ?r))\<bar>
          \<le> gae_tolerance 0 (1 / 8) demo_rnd ?g ?r ?d ?v R A b t) \<and>
       ((\<forall>b < dim0 ?r. entry ?v b (dim1 ?r) = 0) \<longrightarrow>
        (\<forall>b < dim0 ?r. \<forall>t < dim1 ?r.
          \<bar>entry A b t - entry E b t\<bar>
          \<le> gae_tolerance 0 (1 / 8) demo_rnd ?g ?r ?d ?v R A b t))"
    by (rule gae_lambda_one_tolerance [OF demo_rnd_error]) (simp_all add: shape_def)
  then obtain R A E where "compute_returns_rounded demo_rnd ?r ?d 1000000 = Inr R"
    and "compute_advantages_rounded demo_rnd ?g ?r R ?d ?v = Inr A"
    and "compute_advantages_rounded demo_rnd (?g\<lparr>use_gae := False\<rparr>) ?r R ?d ?v = Inr E"
    and z: "(\<forall>b < dim0 ?r. entry ?v b (dim1 ?r) = 0) \<longrightarrow>
        (\<forall>b < dim0 ?r. \<forall>t < dim1 ?r.
          \<bar>entry A b t - entry E b t\<bar>
          \<le> gae_tolerance 0 (1 / 8) demo_rnd ?g ?r ?d ?v R A b t)"
    by blast
  with cR cA cE have eq: "R = ?r" "A = ?A" "E = ?r" by simp_all
  have "\<forall>b < dim0 ?r. entry ?v b (dim1 ?r) = 0" by (simp add: entry_def)
  with z have "\<bar>entry A 0 0 - entry E 0 0\<bar>
          \<le> gae_tolerance 0 (1 / 8) demo_rnd ?g ?r ?d ?v R A 0 0"
    by simp
  then have b: "\<bar>entry ?A 0 0 - entry ?r 0 0\<bar>
          \<le> gae_tolerance 0 (1 / 8) demo_rnd ?g ?r ?d ?v ?r ?A 0 0"
    by (simp only: eq)
  have tol: "gae_tolerance 0 (1 / 8) demo_rnd ?g ?r ?d ?v ?r ?A 0 0 = 17 / 8"
    by (simp add: gae_tolerance_def Let_def entry_def numeral_2_eq_2)
  show ?thesis using cR cA cE b tol by simp
qed

text \<open>
  The example shows that the tolerance is needed even without a bootstrap value.
  Rounding to quarters, with rewards [0, 0], discounts [1, 1] and value_preds
  [0, 1/8, 0], the GAE path rounds 0 + 1/8 up to 1/4 and its advantage is [1/4, 0], the
  empirical advantage is [0, 0], and the tolerance at the first timestep is 17/8.
\<close>

text \<open>
  C7 as stated fails on one unbroken step with a bootstrap value: rewards [1],
  discounts [1] (no zero), value_preds [0, 1] and lambda = 1 give returns [1], the GAE
  advantage [2] and the empirical advantage [1].
\<close>

theorem gae_lambda_one_differs:
  "lambda_value (default_agent\<lparr>use_gae := True, lambda_value := 1\<rparr>) = 1 \<and>
   entry (Tensor 1 1 [[1]]) 0 0 \<noteq> 0 \<and>
   compute_returns (Tensor 1 1 [[1]]) (Tensor 1 1 [[1]]) 1000000 = Inr (Tensor 1 1 [[1]]) \<and>
   compute_advantages (default_agent\<lparr>use_gae := True, lambda_value := 1\<rparr>)
     (Tensor 1 1 [[1]]) (Tensor 1 1 [[1]]) (Tensor 1 1 [[1]]) (Tensor 1 2 [[0, 1]]) =
     Inr (Tensor 1 1 [[2]]) \<and>
   compute_advantages (default_agent\<lparr>use_gae := False, lambda_value := 1\<rparr>)
     (Tensor 1 1 [[1]]) (Tensor 1 1 [[1]]) (Tensor 1 1 [[1]]) (Tensor 1 2 [[0, 1]]) =
     Inr (Tensor 1 1 [[1]])"
  by (simp add: compute_returns_def compute_advantages_def default_agent_def Let_def
      slice_from_1_def slice_to_last_def tabulate_def elementwise_def broadcast_dim_def
      broadcast_entry_def shape_def tf_transpose_def first_slice_def zeros_like_def
      entry_def gae_step_def discounted_accumulate_rewards_def upt_rec)


section \<open>Claims about the adaptive KL coefficient\<close>

text \<open>
  C5 (as amended). When the controller is enabled (the variable holds a beta) and the
  band is not inverted (target * tolerance is not negative), \<open>update_adaptive_kl_beta\<close>
  replaces beta by max(beta / 1.5, 1e-15) if mean_kl < target * (1 - tolerance), by
  max(beta * 1.5, 1e-15) if mean_kl > target * (1 + tolerance), and by max(beta, 1e-15)
  otherwise, which leaves beta unchanged once beta is at least the floor 1e-15; the two
  bound checks cannot both hold. With target 0.01, tolerance 0.3 and beta 1: mean_kl 0.02
  gives 1.5, mean_kl 0.003 gives 2/3, and mean_kl 0.01 leaves beta at 1.
\<close>

theorem update_adaptive_kl_beta_spec:
  assumes beta: "adaptive_kl_beta self = Some beta"
    and mean: "reduce_mean kl_divergence = Some mean_kl"
    and band: "0 \<le> adaptive_kl_target self * adaptive_kl_tolerance self"
  shows "update_adaptive_kl_beta self kl_divergence =
      Inr (self\<lparr>adaptive_kl_beta := Some
        (if mean_kl < adaptive_kl_target self * (1 - adaptive_kl_tolerance self)
         then max (beta / (15 / 10)) (1 / 10 ^ 15)
         else if mean_kl > adaptive_kl_target self * (1 + adaptive_kl_tolerance self)
         then max (beta * (15 / 10)) (1 / 10 ^ 15)
         else max beta (1 / 10 ^ 15))\<rparr>) \<and>
    \<not> (mean_kl < adaptive_kl_target self * (1 - adaptive_kl_tolerance self) \<and>
       mean_kl > adaptive_kl_target self * (1 + adaptive_kl_tolerance self)) \<and>
    (1 / 10 ^ 15 \<le> beta \<longrightarrow> max beta (1 / 10 ^ 15) = beta)"
proof -
  let ?lo = "adaptive_kl_target self * (1 - adaptive_kl_tolerance self)"
  let ?hi = "adaptive_kl_target self * (1 + adaptive_kl_tolerance self)"
  have "?lo \<le> ?hi" using band by (simp add: algebra_simps)
  then have excl: "\<not> (mean_kl < ?lo \<and> mean_kl > ?hi)" by linarith
  have "tf_case_exclusive [(mean_kl < ?lo, 1 / (15 / 10)), (mean_kl > ?hi, 15 / 10)] (1::real) =
      Inr (if mean_kl < ?lo then 1 / (15 / 10) else if mean_kl > ?hi then 15 / 10 else 1)"
    using excl by (rule tf_case_exclusive_two)
  then have "update_adaptive_kl_beta self kl_divergence =
      Inr (self\<lparr>adaptive_kl_beta := Some
        (max (beta * (if mean_kl < ?lo then 1 / (15 / 10) else if mean_kl > ?hi then 15 / 10 else 1))
           (10 / 10 ^ 16))\<rparr>)"
    by (simp add: update_adaptive_kl_beta_def beta mean Let_def)
  moreover have "(10::real) / 10 ^ 16 = 1 / 10 ^ 15" by simp
  ultimately have "update_adaptive_kl_beta self kl_divergence =
      Inr (self\<lparr>adaptive_kl_beta := Some
        (if mean_kl < ?lo then max (beta / (15 / 10)) (1 / 10 ^ 15)
         else if mean_kl > ?hi then max (beta * (15 / 10)) (1 / 10 ^ 15)
         else max beta (1 / 10 ^ 15))\<rparr>)"
    by (simp only: mult_1_right times_divide_eq_right if_distrib [of "\<lambda>f. max (beta * f) _"]
        if_distrib [of "\<lambda>f. beta * f"]) (simp split: if_splits)
  with excl show ?thesis by (simp add: max_def)
qed

theorem update_adaptive_kl_beta_spec_witness:
  "update_adaptive_kl_beta default_agent (Tensor 1 1 [[2 / 100]]) =
     Inr (default_agent\<lparr>adaptive_kl_beta := Some (15 / 10)\<rparr>) \<and>
   update_adaptive_kl_beta default_agent (Tensor 1 1 [[3 / 1000]]) =
     Inr (default_agent\<lparr>adaptive_kl_beta := Some (2 / 3)\<rparr>) \<and>
   update_adaptive_kl_beta default_agent (Tensor 1 1 [[1 / 100]]) =
     Inr (default_agent\<lparr>adaptive_kl_beta := Some 1\<rparr>)"
proof -
  have b: "adaptive_kl_beta default_agent = Some 1"
    by (simp add: default_agent_def initial_adaptive_kl_beta_def)
  have band: "0 \<le> adaptive_kl_target default_agent * adaptive_kl_tolerance default_agent"
    by (simp add: default_agent_def)
  have t: "adaptive_kl_target default_agent = 1 / 100"
    "adaptive_kl_tolerance default_agent = 3 / 10"
    by (simp_all add: default_agent_def)
  show ?thesis
    using update_adaptive_kl_beta_spec [OF b reduce_mean_single band, of "2 / 100"]
      update_adaptive_kl_beta_spec [OF b reduce_mean_single band, of "3 / 1000"]
      update_adaptive_kl_beta_spec [OF b reduce_mean_single band, of "1 / 100"]
    by (simp add: t)
qed

text \<open>
  C5 as stated fails in its third branch for a beta below the floor: the controller is
  enabled with initial beta 1e-16 > 0, mean_kl 0.01 lies inside the band, and beta is
  raised to the floor 1e-15 instead of being left unchanged.
\<close>

theorem update_adaptive_kl_beta_below_floor:
  "update_adaptive_kl_beta (default_agent\<lparr>adaptive_kl_beta := Some (1 / 10 ^ 16)\<rparr>)
     (Tensor 1 1 [[1 / 100]]) =
     Inr (default_agent\<lparr>adaptive_kl_beta := Some (1 / 10 ^ 15)\<rparr>) \<and>
   \<not> (1 / 100 < adaptive_kl_target default_agent * (1 - adaptive_kl_tolerance default_agent)) \<and>
   \<not> (1 / 100 > adaptive_kl_target default_agent * (1 + adaptive_kl_tolerance default_agent)) \<and>
   (1 / 10 ^ 15 :: real) \<noteq> 1 / 10 ^ 16"
  by (simp add: update_adaptive_kl_beta_def default_agent_def reduce_mean_def Let_def
      tf_case_exclusive_def)

text \<open>
  With a negative tolerance both bound checks can hold, and the exclusive case raises.
\<close>

lemma update_adaptive_kl_beta_both_bounds:
  "update_adaptive_kl_beta (default_agent\<lparr>adaptive_kl_tolerance := - 1 / 2\<rparr>)
     (Tensor 1 1 [[1 / 100]]) = Inl MultipleConditionsTrue"
  by (simp add: update_adaptive_kl_beta_def default_agent_def reduce_mean_def Let_def
      tf_case_exclusive_def initial_adaptive_kl_beta_def)

section \<open>Claims about the losses\<close>

text \<open>
  C3 (as amended). On log-probabilities, advantages and a mask of one shape,
  \<open>policy_gradient_loss\<close> computes the importance ratio as
  ratio = exp(clip(log pi_new(a), +-logClip) - log pi_old(a)): the clip is on the new
  log-probability alone, and there is none when the log-prob clipping value is not
  positive. With ratio_clipped = clip(ratio, 1 - epsilon, 1 + epsilon) the per-timestep
  objective is min(ratio * A, ratio_clipped * A), and the unclipped ratio * A when the
  clipping epsilon is not positive (\<open>surrogate_objective\<close>); the loss returned is
  -mean(objective * mask).
\<close>

theorem policy_gradient_loss_spec:
  fixes log_probability :: "'d \<Rightarrow> 'a \<Rightarrow> tensor"
    and current_policy_distribution :: 'd and actions :: 'a
  defines "new \<equiv> log_probability current_policy_distribution actions"
  assumes sh: "shape new = (m, n)" "shape sample_action_log_probs = (m, n)"
    "shape advantages = (m, n)" "shape valid_mask = (m, n)"
  shows "policy_gradient_loss self log_probability actions sample_action_log_probs advantages
      current_policy_distribution valid_mask =
    Inr (map_option uminus (reduce_mean (tabulate m n (\<lambda>i j.
      surrogate_objective self (entry new i j) (entry sample_action_log_probs i j)
        (entry advantages i j) * entry valid_mask i j))))"
proof -
  have d: "dim0 new = m" "dim1 new = n"
    "dim0 sample_action_log_probs = m" "dim1 sample_action_log_probs = n"
    "dim0 advantages = m" "dim1 advantages = n"
    "dim0 valid_mask = m" "dim1 valid_mask = n"
    using sh by (simp_all add: shape_def)
  have "policy_gradient_loss self log_probability actions sample_action_log_probs advantages
      current_policy_distribution valid_mask =
    Inr (reduce_mean (tabulate m n (\<lambda>i j.
      - (surrogate_objective self (entry new i j) (entry sample_action_log_probs i j)
          (entry advantages i j) * entry valid_mask i j))))"
    unfolding new_def
    by (subst policy_gradient_loss_unfold [where m = m and n = n])
       (simp_all add: d [unfolded new_def])
  then show ?thesis by (simp only: reduce_mean_uminus)
qed

theorem policy_gradient_loss_spec_witness:
  "policy_gradient_loss (default_agent\<lparr>importance_ratio_clipping := 1 / 5\<rparr>) (\<lambda>d a. d) ()
     (Tensor 1 2 [[0, 0]]) (Tensor 1 2 [[2, 4]]) (Tensor 1 2 [[0, 0]]) (Tensor 1 2 [[1, 0]]) =
     Inr (Some (- 1))"
proof -
  have "policy_gradient_loss (default_agent\<lparr>importance_ratio_clipping := 1 / 5\<rparr>)
      (\<lambda>d a. d) () (Tensor 1 2 [[0, 0]]) (Tensor 1 2 [[2, 4]]) (Tensor 1 2 [[0, 0]])
      (Tensor 1 2 [[1, 0]]) =
    Inr (map_option uminus (reduce_mean (tabulate 1 2 (\<lambda>i j.
      surrogate_objective (default_agent\<lparr>importance_ratio_clipping := 1 / 5\<rparr>)
        (entry (Tensor 1 2 [[0, 0]]) i j) (entry (Tensor 1 2 [[0, 0]]) i j)
        (entry (Tensor 1 2 [[2, 4]]) i j) * entry (Tensor 1 2 [[1, 0]]) i j))))"
    by (rule policy_gradient_loss_spec) (simp_all add: shape_def)
  then show ?thesis
    by (simp add: reduce_mean_def tabulate_def surrogate_objective_def entry_def
        clip_by_value_def default_agent_def Let_def upt_rec)
qed

text \<open>
  C3 as stated fails when the log-prob clipping value is positive: with logClip = 1 and
  both log-probabilities equal to -3 the source clips -3 to -1 first and gets the ratio
  exp(-1 - (-3)) = exp 2, where the claimed exp(clip(-3 - (-3), +-1)) is exp 0. With
  advantage 1, mask 1 and no ratio clipping the loss is -exp 2, not the claimed -1.
\<close>

theorem policy_gradient_loss_clips_new_log_prob:
  "policy_gradient_loss (default_agent\<lparr>log_prob_clipping := 1\<rparr>) (\<lambda>d a. d) ()
     (Tensor 1 1 [[- 3]]) (Tensor 1 1 [[1]]) (Tensor 1 1 [[- 3]]) (Tensor 1 1 [[1]]) =
     Inr (Some (- exp 2)) \<and>
   - exp 2 \<noteq> - (exp (clip_by_value (- 3 - (- 3)) (- 1) 1) * 1 * (1::real))"
  by (simp add: policy_gradient_loss_def default_agent_def elementwise_def
      broadcast_dim_def broadcast_entry_def tabulate_def entry_def tmap_def clip_by_value_def
      reduce_mean_def Let_def)

text \<open>
  The per-timestep objective never exceeds the unclipped objective ratio * A, whatever
  the sign of the advantage: the minimum is taken against it.
\<close>

theorem surrogate_objective_pessimistic:
  "surrogate_objective self new_log_prob old_log_prob advantage \<le>
     exp ((if log_prob_clipping self > 0
           then clip_by_value new_log_prob (- log_prob_clipping self) (log_prob_clipping self)
           else new_log_prob) - old_log_prob) * advantage"
  by (simp add: surrogate_objective_def Let_def)





section \<open>Claims about \<open>compute_return_and_advantage\<close>\<close>

text \<open>
  C4. With \<open>use_td_lambda_return\<close> and \<open>use_gae\<close> both enabled the returned returns
  should be advantage + value_preds[:, :-1]. The source adds the unsliced \<open>value_preds\<close>,
  which has one more timestep than the advantages: for every batch with two or more
  timesteps the addition does not broadcast and the call fails.
\<close>

theorem td_lambda_return_shape_error:
  assumes flags: "use_td_lambda_return self" "use_gae self"
    and sh: "shape next_discount = (B, T)" "shape next_reward = (B, T)"
      "shape episode_mask = (B, T)" "shape value_preds = (B, Suc T)"
    and T: "2 \<le> T"
  shows "compute_return_and_advantage self None next_discount next_reward episode_mask
           value_preds = Inl IncompatibleShapes"
proof -
  have d: "dim0 next_discount = B" "dim1 next_discount = T" "dim0 next_reward = B"
    "dim1 next_reward = T" "dim0 episode_mask = B" "dim1 episode_mask = T"
    "dim0 value_preds = B" "dim1 value_preds = Suc T"
    using sh by (simp_all add: shape_def)
  define discounts where "discounts = tabulate B T (\<lambda>i j.
      entry (tmap (\<lambda>v. v * discount_factor self) next_discount) i j * entry episode_mask i j)"
  have e1: "elementwise (*) (tmap (\<lambda>v. v * discount_factor self) next_discount) episode_mask =
      Inr discounts"
    unfolding discounts_def by (subst elementwise_same_shape) (simp_all add: dims_tmap d)
  have dd: "shape next_reward = shape discounts" "0 < dim1 next_reward"
    "dim0 value_preds = dim0 next_reward" "dim1 value_preds = Suc (dim1 next_reward)"
    using T by (simp_all add: shape_def discounts_def dims_tabulate d)
  define returns where "returns = scanned discounted_accumulate_rewards next_reward discounts"
  have e2: "compute_returns next_reward discounts 1000000 = Inr returns"
    unfolding returns_def by (rule compute_returns_unfold [OF dd(1,2)])
  obtain advantages where e3:
    "compute_advantages self next_reward returns discounts value_preds = Inr advantages"
    and ad: "dim1 advantages = T"
    using compute_advantages_gae_unfold [OF flags(2) dd(1,3,4,2), of returns]
    by (simp add: scanned_shape dims_tabulate d)
  have e4: "elementwise (+) advantages value_preds = Inl IncompatibleShapes"
    using T by (intro elementwise_incompatible) (simp_all add: ad d)
  show ?thesis
    unfolding compute_return_and_advantage_def Let_def
    by (simp only: option.case e1 e2 e3 e4 sum.case flags if_True not_True_eq_False if_False)
qed

theorem td_lambda_return_shape_error_witness:
  "compute_return_and_advantage (default_agent\<lparr>use_gae := True, use_td_lambda_return := True\<rparr>)
     None (Tensor 1 2 [[1, 1]]) (Tensor 1 2 [[1, 1]]) (Tensor 1 2 [[1, 1]])
     (Tensor 1 3 [[0, 0, 0]]) = Inl IncompatibleShapes"
  by (rule td_lambda_return_shape_error [where B = 1 and T = 2])
     (simp_all add: shape_def default_agent_def)

text \<open>
  With a single timestep the unsliced addition broadcasts instead, and the returned
  returns have two timesteps where the advantages have one.
\<close>

lemma td_lambda_return_one_step:
  "\<exists>na. compute_return_and_advantage (default_agent\<lparr>use_gae := True, use_td_lambda_return := True\<rparr>)
     None (Tensor 1 1 [[1]]) (Tensor 1 1 [[1]]) (Tensor 1 1 [[1]])
     (Tensor 1 2 [[0, 5]]) = Inr (Tensor 1 2 [[1 + 99 / 100 * 5, 1 + 99 / 100 * 5 + 5]], na, [])"
  by (simp add: compute_return_and_advantage_def compute_returns_def compute_advantages_def
      default_agent_def Let_def
      slice_from_1_def slice_to_last_def tabulate_def elementwise_def broadcast_dim_def
      broadcast_entry_def shape_def tf_transpose_def first_slice_def zeros_like_def tmap_def
      entry_def gae_step_def discounted_accumulate_rewards_def upt_rec)

text \<open>
  The other half of C4: with \<open>use_td_lambda_return\<close> enabled and \<open>use_gae\<close> disabled
  the call logs the warning and returns what it returns with \<open>use_td_lambda_return\<close>
  disabled, the Monte Carlo return unchanged.
\<close>

theorem td_lambda_without_gae:
  assumes "use_td_lambda_return self" "\<not> use_gae self"
  shows "compute_return_and_advantage self normalizer next_discount next_reward
           episode_mask value_preds =
    (case compute_return_and_advantage (self\<lparr>use_td_lambda_return := False\<rparr>) normalizer
            next_discount next_reward episode_mask value_preds of
       Inl e \<Rightarrow> Inl e
     | Inr (returns, normalized_advantages, warnings) \<Rightarrow>
         Inr (returns, normalized_advantages,
           [''use_td_lambda_return was True, but use_gae was False. Using Monte Carlo return.'']))"
proof -
  have ca: "compute_advantages (self\<lparr>use_td_lambda_return := False\<rparr>) r ret d v =
      compute_advantages self r ret d v" for r ret d v
    using assms(2) by (simp add: compute_advantages_def)
  show ?thesis
    using assms
    by (cases normalizer)
       (simp_all add: compute_return_and_advantage_def Let_def ca split: sum.split)
qed

theorem td_lambda_without_gae_witness:
  "compute_return_and_advantage (default_agent\<lparr>use_td_lambda_return := True\<rparr>) None
     (Tensor 1 1 [[1]]) (Tensor 1 1 [[1]]) (Tensor 1 1 [[1]]) (Tensor 1 2 [[0, 0]]) =
     Inr (Tensor 1 1 [[1]], Tensor 1 1 [[0]],
       [''use_td_lambda_return was True, but use_gae was False. Using Monte Carlo return.''])"
proof -
  have "compute_return_and_advantage
     (default_agent\<lparr>use_td_lambda_return := True, use_td_lambda_return := False\<rparr>) None
     (Tensor 1 1 [[1]]) (Tensor 1 1 [[1]]) (Tensor 1 1 [[1]]) (Tensor 1 2 [[0, 0]]) =
     Inr (Tensor 1 1 [[1]], Tensor 1 1 [[0]], [])"
    by (simp add: compute_return_and_advantage_def compute_returns_def compute_advantages_def
      normalize_advantages_def moments_def reduce_mean_def default_agent_def Let_def
      slice_from_1_def slice_to_last_def tabulate_def elementwise_def broadcast_dim_def
      broadcast_entry_def shape_def tf_transpose_def first_slice_def zeros_like_def tmap_def
      entry_def discounted_accumulate_rewards_def upt_rec)
  with td_lambda_without_gae [of "default_agent\<lparr>use_td_lambda_return := True\<rparr>" None
      "Tensor 1 1 [[1]]" "Tensor 1 1 [[1]]" "Tensor 1 1 [[1]]" "Tensor 1 2 [[0, 0]]"]
  show ?thesis by (simp add: default_agent_def)
qed

section \<open>Claims about \<open>train_from_experience\<close>\<close>

text \<open>
  C6. After the final epoch's weight update the KL divergence between the originally
  stored old distribution and the distribution under the fully updated weights is
  recomputed, masked by the validity mask, and its mean is fed to the adaptive-KL beta
  update; the normalizers are updated after that, from the raw observations and rewards.
  The source recomputes the KL divergence and orders the updates as stated, but it hands
  the KL divergence to \<open>update_adaptive_kl_beta\<close> without the validity mask that
  \<open>kl_penalty_loss\<close> multiplies into the same tensor. In the small training call the KL
  divergence under the final weights is [0.01, 0.03] and the validity mask is [1, 0]:
  the call feeds the unmasked tensor, whose mean 0.02 lies above the band, and beta goes
  from 1 to 1.5; masked, the tensor is [0.01, 0], its mean 0.005 lies below the band, and
  beta would go to 2/3.
\<close>

theorem train_from_experience_kl_unmasked:
  "train_from_experience demo_lib demo_state demo_experience =
     Inr (\<lparr>agent = default_agent\<lparr>num_epochs := 2, adaptive_kl_beta := Some (3 / 2)\<rparr>,
           weights = 2, observation_normalizer = Some 1, reward_normalizer = Some 1\<rparr>,
          [TrainOp 0, TrainOp 1, KLDivergence, UpdateAdaptiveKLBeta,
           UpdateObservationNormalizer, UpdateRewardNormalizer]) \<and>
   agent_kl_divergence (get_distribution_from_params_and_classes demo_lib)
     (nested_kl_divergence demo_lib) (batch_action_distribution_parameters demo_experience)
     (policy_distribution demo_lib 2 (observation_normalizer demo_state)
        (batch_time_steps demo_experience)) = Tensor 1 2 [[1 / 100, 3 / 100]] \<and>
   elementwise (*) (Tensor 1 2 [[1 / 100, 3 / 100]]) (batch_valid_mask demo_experience) =
     Inr (Tensor 1 2 [[1 / 100, 0]]) \<and>
   update_adaptive_kl_beta (agent demo_state) (Tensor 1 2 [[1 / 100, 0]]) =
     Inr (default_agent\<lparr>num_epochs := 2, adaptive_kl_beta := Some (2 / 3)\<rparr>)"
proof (intro conjI)
  show "train_from_experience demo_lib demo_state demo_experience =
     Inr (\<lparr>agent = default_agent\<lparr>num_epochs := 2, adaptive_kl_beta := Some (3 / 2)\<rparr>,
           weights = 2, observation_normalizer = Some 1, reward_normalizer = Some 1\<rparr>,
          [TrainOp 0, TrainOp 1, KLDivergence, UpdateAdaptiveKLBeta,
           UpdateObservationNormalizer, UpdateRewardNormalizer])"
    by (rule demo_run)
  show "agent_kl_divergence (get_distribution_from_params_and_classes demo_lib)
     (nested_kl_divergence demo_lib) (batch_action_distribution_parameters demo_experience)
     (policy_distribution demo_lib 2 (observation_normalizer demo_state)
        (batch_time_steps demo_experience)) = Tensor 1 2 [[1 / 100, 3 / 100]]"
    by (simp add: agent_kl_divergence_def demo_lib_def)
  show "elementwise (*) (Tensor 1 2 [[1 / 100, 3 / 100]]) (batch_valid_mask demo_experience) =
     Inr (Tensor 1 2 [[1 / 100, 0]])"
    by (simp add: demo_experience_def elementwise_def broadcast_dim_def broadcast_entry_def
        tabulate_def entry_def upt_rec)
  show "update_adaptive_kl_beta (agent demo_state) (Tensor 1 2 [[1 / 100, 0]]) =
     Inr (default_agent\<lparr>num_epochs := 2, adaptive_kl_beta := Some (2 / 3)\<rparr>)"
    by (simp add: update_adaptive_kl_beta_def demo_state_def default_agent_def reduce_mean_def
        initial_adaptive_kl_beta_def tf_case_exclusive_def Let_def)
qed

text \<open>
  The order of one training call that runs to its end (at least one epoch, the return and
  advantage computation and the coefficient update succeed): the train ops of the epochs;
  then the KL divergence between the originally stored old distribution and the
  distribution under the fully updated weights; then the adaptive-KL beta update on that
  KL divergence; and only then the updates of the observation and reward normalizers,
  from this batch's raw observations (\<open>time_steps.observation\<close>) and raw rewards
  (\<open>next_time_steps.reward\<close>). The epochs leave beta and the normalizers as they were.
\<close>

theorem train_from_experience_order:
  fixes lib :: "('w, 'n, 'o, 'a, 'p, 'd) collaborators"
    and st :: "('w, 'n) train_state" and experience :: "('o, 'a, 'p) experience"
  defines "act_log_probs \<equiv> log_probability lib
      (get_distribution_from_params_and_classes lib
         (batch_action_distribution_parameters experience)) (batch_actions experience)"
  assumes ra: "compute_return_and_advantage (agent st)
        (map_option (normalizer_normalize lib) (reward_normalizer st))
        (batch_next_discount experience) (batch_next_reward experience)
        (batch_episode_mask experience)
        (apply_value_network lib (weights st) (observation_normalizer st)
           (batch_trajectory experience)) = Inr (returns, normalized_advantages, warnings)"
    and N: "0 < num_epochs (agent st)"
  defines "final_weights \<equiv>
      ((\<lambda>w. train_op lib (st\<lparr>weights := w\<rparr>) experience act_log_probs returns
              normalized_advantages) ^^ nat (num_epochs (agent st))) (weights st)"
  defines "kl \<equiv> nested_kl_divergence lib
      (get_distribution_from_params_and_classes lib
         (batch_action_distribution_parameters experience))
      (policy_distribution lib final_weights (observation_normalizer st)
         (batch_time_steps experience))"
  assumes beta: "update_adaptive_kl_beta (agent st) kl = Inr self'"
  shows "train_from_experience lib st experience =
    Inr (st\<lparr>agent := self', weights := final_weights,
            observation_normalizer :=
              map_option (\<lambda>n. update_observations lib n (batch_time_steps experience))
                (observation_normalizer st),
            reward_normalizer :=
              map_option (\<lambda>n. update_rewards lib n (batch_next_reward experience))
                (reward_normalizer st)\<rparr>,
         map TrainOp [0..<nat (num_epochs (agent st))] @ [KLDivergence, UpdateAdaptiveKLBeta] @
         (case observation_normalizer st of None \<Rightarrow> [] | Some n \<Rightarrow> [UpdateObservationNormalizer]) @
         (case reward_normalizer st of None \<Rightarrow> [] | Some n \<Rightarrow> [UpdateRewardNormalizer]))"
  unfolding final_weights_def kl_def act_log_probs_def
  using ra N beta [unfolded final_weights_def kl_def act_log_probs_def]
  by (rule train_from_experience_unfold)

theorem train_from_experience_order_witness:
  "train_from_experience demo_lib demo_state demo_experience =
     Inr (\<lparr>agent = default_agent\<lparr>num_epochs := 2, adaptive_kl_beta := Some (3 / 2)\<rparr>,
           weights = 2, observation_normalizer = Some 1, reward_normalizer = Some 1\<rparr>,
          [TrainOp 0, TrainOp 1, KLDivergence, UpdateAdaptiveKLBeta,
           UpdateObservationNormalizer, UpdateRewardNormalizer])"
proof -
  have kl: "nested_kl_divergence demo_lib
      (get_distribution_from_params_and_classes demo_lib
         (batch_action_distribution_parameters demo_experience))
      (policy_distribution demo_lib 2 (observation_normalizer demo_state)
         (batch_time_steps demo_experience)) = Tensor 1 2 [[1 / 100, 3 / 100]]"
    by (simp add: demo_lib_def)
  have "train_from_experience demo_lib demo_state demo_experience =
    Inr (demo_state\<lparr>agent := default_agent\<lparr>num_epochs := 2, adaptive_kl_beta := Some (3 / 2)\<rparr>,
            weights := 2,
            observation_normalizer :=
              map_option (\<lambda>n. update_observations demo_lib n (batch_time_steps demo_experience))
                (observation_normalizer demo_state),
            reward_normalizer :=
              map_option (\<lambda>n. update_rewards demo_lib n (batch_next_reward demo_experience))
                (reward_normalizer demo_state)\<rparr>,
         map TrainOp [0..<nat (num_epochs (agent demo_state))] @
         [KLDivergence, UpdateAdaptiveKLBeta] @
         (case observation_normalizer demo_state of None \<Rightarrow> []
          | Some n \<Rightarrow> [UpdateObservationNormalizer]) @
         (case reward_normalizer demo_state of None \<Rightarrow> [] | Some n \<Rightarrow> [UpdateRewardNormalizer]))"
    using train_from_experience_order [OF demo_return_and_advantage,
        of "default_agent\<lparr>num_epochs := 2, adaptive_kl_beta := Some (3 / 2)\<rparr>"]
    by (simp only: demo_final_weights kl demo_beta) (simp add: demo_state_def)
  then show ?thesis
    by (simp add: demo_state_def demo_lib_def upt_rec)
qed

end
